theory Spec2Isabelle
  imports Complex_Main
begin

section \<open>Rows of the store (db\_setup.sql)\<close>

text \<open>
  The four tables of \<^verbatim>\<open>db_setup.sql\<close>. A nullable column is an \<open>option\<close>
  (\<open>None\<close> is SQL \<open>NULL\<close>), a \<open>NOT NULL\<close> column a plain value. UUIDs and
  TEXT ids are strings, the FLOAT positions are reals (the code only copies them), the
  timestamps are natural numbers (the value of \<open>NOW()\<close> is a parameter of every
  operation that reads the clock). The JSONB columns of a tool are kept as opaque text.
\<close>

record project_row =
  p_id :: string
  p_name :: string
  p_description :: "string option"
  p_created_at :: nat
  p_updated_at :: nat

record tool_row =
  t_id :: string
  t_name :: string
  t_endpoint :: string
  t_method :: string
  t_headers :: "string option"
  t_body :: "string option"

record node_row =
  n_id :: string
  n_project_id :: string
  n_title :: string
  n_prompt :: "string option"
  n_node_type :: string
  n_tool_id :: "string option"
  n_position_x :: real
  n_position_y :: real
  n_created_at :: nat
  n_updated_at :: nat

record edge_row =
  e_id :: string
  e_project_id :: string
  e_source_id :: string
  e_target_id :: string
  e_label :: "string option"
  e_prompt :: "string option"
  e_created_at :: nat
  e_updated_at :: nat

record db =
  projects :: "project_row list"
  tools :: "tool_row list"
  nodes :: "node_row list"
  edges :: "edge_row list"

text \<open>
  A node as \<^verbatim>\<open>fetchNodesByProject\<close> returns it: the row with the joined tool
  (\<^verbatim>\<open>select('*, tool:tools(*)')\<close>), \<open>None\<close> when the row references no tool.
\<close>

record fetched_node = node_row +
  f_tool :: "tool_row option"

section \<open>The canvas state (Flow component)\<close>

text \<open>
  The field \<^verbatim>\<open>data.tool\<close> of a canvas node is \<^verbatim>\<open>fullNode?.tool\<close>:
  \<^verbatim>\<open>undefined\<close> when no fetched node was found, \<^verbatim>\<open>null\<close> when the
  fetched node has no tool, the tool otherwise.
\<close>

datatype tool_field = ToolUndefined | ToolNull | ToolObj tool_row

record node_data =
  d_title :: string
  d_prompt :: "string option"
  d_node_type :: string
  d_tool_id :: "string option"
  d_tool :: tool_field

record flow_node =
  fn_id :: string
  fn_type :: string
  fn_position :: "real \<times> real"
  fn_deletable :: bool
  fn_data :: node_data

record edge_data =
  ed_label :: "string option"
  ed_prompt :: "string option"

record flow_edge =
  fe_id :: string
  fe_source :: string
  fe_target :: string
  fe_type :: string
  fe_data :: "edge_data option"

text \<open>
  What a service function of \<^verbatim>\<open>flowService.js\<close> resolves to: \<^verbatim>\<open>{ data }\<close>,
  \<^verbatim>\<open>{ success: true }\<close> or \<^verbatim>\<open>{ error }\<close>.
\<close>

datatype 'a svc_result = Data 'a | Success | Failure string

text \<open>
  A change event of the push stream: \<^verbatim>\<open>payload.eventType\<close>, \<^verbatim>\<open>payload.new\<close>
  and \<^verbatim>\<open>payload.old.id\<close>, the three parts the handlers read.
\<close>

record node_payload =
  np_eventType :: string
  np_new :: node_row
  np_old_id :: string

record edge_payload =
  ep_eventType :: string
  ep_new :: edge_row
  ep_old_id :: string

section \<open>JavaScript's \<open>||\<close> on strings\<close>

text \<open>\<^verbatim>\<open>s || d\<close>: the empty string is falsy.\<close>

definition js_or :: "string \<Rightarrow> string \<Rightarrow> string" where
  "js_or s d = (if s = [] then d else s)"

text \<open>\<^verbatim>\<open>s || null\<close> for a string that may be \<^verbatim>\<open>null\<close>.\<close>

definition js_or_null :: "string option \<Rightarrow> string option" where
  "js_or_null s = (case s of None \<Rightarrow> None | Some v \<Rightarrow> if v = [] then None else Some v)"

section \<open>Reconciliation of change events (subscription handlers of Flow)\<close>

text \<open>
  \<^verbatim>\<open>const { data: nodeWithTool } = await fetchNodesByProject(projectId);\<close>
  \<^verbatim>\<open>const fullNode = nodeWithTool?.find(n => n.id === newRecord.id);\<close>
  A result without \<^verbatim>\<open>data\<close> leaves \<^verbatim>\<open>nodeWithTool\<close> undefined, and so
  \<^verbatim>\<open>fullNode\<close>.
\<close>

definition fullNode :: "fetched_node list svc_result \<Rightarrow> node_row \<Rightarrow> fetched_node option" where
  "fullNode res newRecord =
     (case res of
        Data nodeWithTool \<Rightarrow> find (\<lambda>n. n_id n = n_id newRecord) nodeWithTool
      | Success \<Rightarrow> None
      | Failure e \<Rightarrow> None)"

text \<open>\<^verbatim>\<open>fullNode?.tool\<close>\<close>

definition resolved_tool :: "fetched_node option \<Rightarrow> tool_field" where
  "resolved_tool full =
     (case full of
        None \<Rightarrow> ToolUndefined
      | Some n \<Rightarrow> (case f_tool n of None \<Rightarrow> ToolNull | Some t \<Rightarrow> ToolObj t))"

definition updatedNode :: "fetched_node list svc_result \<Rightarrow> node_row \<Rightarrow> flow_node" where
  "updatedNode res newRecord =
     \<lparr> fn_id = n_id newRecord,
       fn_type = ''customNode'',
       fn_position = (n_position_x newRecord, n_position_y newRecord),
       fn_deletable = (n_node_type newRecord \<noteq> ''start''),
       fn_data = \<lparr> d_title = n_title newRecord,
                   d_prompt = n_prompt newRecord,
                   d_node_type = js_or (n_node_type newRecord) ''default'',
                   d_tool_id = js_or_null (n_tool_id newRecord),
                   d_tool = resolved_tool (fullNode res newRecord) \<rparr> \<rparr>"

text \<open>The updater passed to \<^verbatim>\<open>setNodes\<close> on INSERT and UPDATE.\<close>

definition setNodes_merge :: "flow_node \<Rightarrow> flow_node list \<Rightarrow> flow_node list" where
  "setNodes_merge u prevNodes =
     (if list_ex (\<lambda>node. fn_id node = fn_id u) prevNodes
      then map (\<lambda>node. if fn_id node = fn_id u then u else node) prevNodes
      else prevNodes @ [u])"

text \<open>
  The node handler: the fetch has resolved to \<open>res\<close> when the updater runs on the
  state \<open>prevNodes\<close>. Any other event type leaves the state as it is.
\<close>

definition on_node_change ::
  "node_payload \<Rightarrow> fetched_node list svc_result \<Rightarrow> flow_node list \<Rightarrow> flow_node list" where
  "on_node_change payload res prevNodes =
     (if np_eventType payload = ''INSERT'' \<or> np_eventType payload = ''UPDATE''
      then setNodes_merge (updatedNode res (np_new payload)) prevNodes
      else if np_eventType payload = ''DELETE''
      then filter (\<lambda>node. fn_id node \<noteq> np_old_id payload) prevNodes
      else prevNodes)"

definition updatedEdge :: "edge_row \<Rightarrow> flow_edge" where
  "updatedEdge newRecord =
     \<lparr> fe_id = e_id newRecord,
       fe_source = e_source_id newRecord,
       fe_target = e_target_id newRecord,
       fe_type = ''customEdge'',
       fe_data = Some \<lparr> ed_label = e_label newRecord, ed_prompt = e_prompt newRecord \<rparr> \<rparr>"

definition setEdges_merge :: "flow_edge \<Rightarrow> flow_edge list \<Rightarrow> flow_edge list" where
  "setEdges_merge u prevEdges =
     (if list_ex (\<lambda>edge. fe_id edge = fe_id u) prevEdges
      then map (\<lambda>edge. if fe_id edge = fe_id u then u else edge) prevEdges
      else prevEdges @ [u])"

definition on_edge_change :: "edge_payload \<Rightarrow> flow_edge list \<Rightarrow> flow_edge list" where
  "on_edge_change payload prevEdges =
     (if ep_eventType payload = ''INSERT'' \<or> ep_eventType payload = ''UPDATE''
      then setEdges_merge (updatedEdge (ep_new payload)) prevEdges
      else if ep_eventType payload = ''DELETE''
      then filter (\<lambda>edge. fe_id edge \<noteq> ep_old_id payload) prevEdges
      else prevEdges)"

section \<open>The store: triggers and the stored procedure (db\_setup.sql)\<close>

text \<open>
  The errors a statement can end with: the two \<^verbatim>\<open>RAISE EXCEPTION\<close> of the file,
  the violations of its constraints (\<open>NOT NULL\<close>, primary key, foreign key), the
  error of an \<^verbatim>\<open>ON CONFLICT DO UPDATE\<close> that meets a row of its own command again,
  and the error of \<^verbatim>\<open>.single()\<close> on a result that is not one row.
\<close>

datatype store_error =
    StartNodeRequired
  | CannotDeleteStartNode
  | NotNullViolation string
  | UniqueViolation string
  | ForeignKeyViolation string
  | CardinalityViolation
  | NoSingleRow

fun message :: "store_error \<Rightarrow> string" where
  "message StartNodeRequired = ''Flow must include a start node''"
| "message CannotDeleteStartNode = ''Cannot delete start node''"
| "message (NotNullViolation c) = ''null value violates not-null constraint in column '' @ c"
| "message (UniqueViolation t) = ''duplicate key value violates unique constraint '' @ t"
| "message (ForeignKeyViolation t) = ''insert or update violates foreign key constraint '' @ t"
| "message CardinalityViolation = ''ON CONFLICT DO UPDATE command cannot affect row a second time''"
| "message NoSingleRow = ''JSON object requested, multiple (or no) rows returned''"

text \<open>
  The elements of \<^verbatim>\<open>p_nodes\<close> and \<^verbatim>\<open>p_edges\<close>, read with \<^verbatim>\<open>->>\<close>: a key that
  is absent or \<^verbatim>\<open>null\<close> reads as \<open>NULL\<close>. The fields are typed as the casts of
  \<^verbatim>\<open>save_flow\<close> expect them (text that is no UUID or no number is not represented).
  These are also the objects \<^verbatim>\<open>handleSave\<close> builds and \<^verbatim>\<open>saveFlow\<close> receives.
\<close>

record json_node =
  jn_id :: "string option"
  jn_project_id :: "string option"
  jn_title :: "string option"
  jn_prompt :: "string option"
  jn_node_type :: "string option"
  jn_tool_id :: "string option"
  jn_position_x :: "real option"
  jn_position_y :: "real option"

record json_edge =
  je_id :: "string option"
  je_project_id :: "string option"
  je_source_id :: "string option"
  je_target_id :: "string option"
  je_label :: "string option"
  je_prompt :: "string option"

subsection \<open>Triggers\<close>

text \<open>
  \<^verbatim>\<open>create_start_node_for_project\<close>, after the insert of the project row \<open>NEW\<close>:
  the start node is inserted; its id is the primary key of \<^verbatim>\<open>nodes\<close>.
\<close>

definition start_node_row :: "nat \<Rightarrow> project_row \<Rightarrow> node_row" where
  "start_node_row now NEW =
     \<lparr> n_id = ''start_'' @ p_id NEW,
       n_project_id = p_id NEW,
       n_title = ''Start'',
       n_prompt = Some ''This is the starting point of your flow'',
       n_node_type = ''start'',
       n_tool_id = None,
       n_position_x = 50,
       n_position_y = 50,
       n_created_at = now,
       n_updated_at = now \<rparr>"

definition create_start_node_for_project ::
  "nat \<Rightarrow> project_row \<Rightarrow> node_row list \<Rightarrow> store_error + node_row list" where
  "create_start_node_for_project now NEW tbl =
     (if list_ex (\<lambda>r. n_id r = ''start_'' @ p_id NEW) tbl
      then Inl (UniqueViolation ''nodes_pkey'')
      else Inr (tbl @ [start_node_row now NEW]))"

text \<open>
  The insert of a project row (\<^verbatim>\<open>createProject\<close>): the primary key, then the
  \<^verbatim>\<open>AFTER INSERT\<close> trigger. An error of the trigger aborts the statement, and the
  project row is not stored either.
\<close>

definition insert_project :: "nat \<Rightarrow> project_row \<Rightarrow> db \<Rightarrow> store_error option \<times> db" where
  "insert_project now NEW d =
     (if list_ex (\<lambda>p. p_id p = p_id NEW) (projects d)
      then (Some (UniqueViolation ''projects_pkey''), d)
      else (case create_start_node_for_project now NEW (nodes d) of
              Inl e \<Rightarrow> (Some e, d)
            | Inr tbl \<Rightarrow> (None, d\<lparr> projects := projects d @ [NEW], nodes := tbl \<rparr>)))"

text \<open>\<^verbatim>\<open>prevent_start_node_deletion\<close>, before the delete of the row \<open>OLD\<close>.\<close>

definition prevent_start_node_deletion :: "node_row \<Rightarrow> store_error + node_row" where
  "prevent_start_node_deletion OLD =
     (if n_node_type OLD = ''start'' then Inl CannotDeleteStartNode else Inr OLD)"

text \<open>
  \<^verbatim>\<open>DELETE FROM nodes WHERE cond\<close>: every row the condition selects goes through the
  trigger, and the first exception ends the statement.
\<close>

fun delete_nodes_where :: "(node_row \<Rightarrow> bool) \<Rightarrow> node_row list \<Rightarrow> store_error + node_row list" where
  "delete_nodes_where cond [] = Inr []"
| "delete_nodes_where cond (r # rs) =
     (if cond r
      then (case prevent_start_node_deletion r of
              Inl e \<Rightarrow> Inl e
            | Inr old \<Rightarrow> delete_nodes_where cond rs)
      else (case delete_nodes_where cond rs of
              Inl e \<Rightarrow> Inl e
            | Inr rs' \<Rightarrow> Inr (r # rs')))"

subsection \<open>The insert statements of \<^verbatim>\<open>save_flow\<close>\<close>

text \<open>
  The row an element of \<^verbatim>\<open>p_nodes\<close> proposes, with the \<open>NOT NULL\<close> constraints of
  the table checked on it (they are checked before the conflict on the key is looked at).
\<close>

definition node_of_json :: "nat \<Rightarrow> json_node \<Rightarrow> store_error + node_row" where
  "node_of_json now j =
     (case jn_id j of None \<Rightarrow> Inl (NotNullViolation ''id'') | Some i \<Rightarrow>
      case jn_project_id j of None \<Rightarrow> Inl (NotNullViolation ''project_id'') | Some p \<Rightarrow>
      case jn_title j of None \<Rightarrow> Inl (NotNullViolation ''title'') | Some t \<Rightarrow>
      case jn_node_type j of None \<Rightarrow> Inl (NotNullViolation ''node_type'') | Some k \<Rightarrow>
      case jn_position_x j of None \<Rightarrow> Inl (NotNullViolation ''position_x'') | Some x \<Rightarrow>
      case jn_position_y j of None \<Rightarrow> Inl (NotNullViolation ''position_y'') | Some y \<Rightarrow>
        Inr \<lparr> n_id = i, n_project_id = p, n_title = t, n_prompt = jn_prompt j,
              n_node_type = k, n_tool_id = jn_tool_id j, n_position_x = x, n_position_y = y,
              n_created_at = now, n_updated_at = now \<rparr>)"

text \<open>\<^verbatim>\<open>tool_id UUID REFERENCES tools(id)\<close>\<close>

definition tool_exists :: "db \<Rightarrow> string option \<Rightarrow> bool" where
  "tool_exists d tid = (case tid of None \<Rightarrow> True | Some t \<Rightarrow> list_ex (\<lambda>x. t_id x = t) (tools d))"

text \<open>\<^verbatim>\<open>project_id UUID NOT NULL REFERENCES projects(id)\<close>\<close>

definition project_exists :: "db \<Rightarrow> string \<Rightarrow> bool" where
  "project_exists d pid = list_ex (\<lambda>p. p_id p = pid) (projects d)"

text \<open>The \<^verbatim>\<open>DO UPDATE SET\<close> list of \<^verbatim>\<open>save_flow\<close>, on the stored row \<open>x\<close>.\<close>

definition do_update_set :: "nat \<Rightarrow> node_row \<Rightarrow> node_row \<Rightarrow> node_row" where
  "do_update_set now EXCLUDED x =
     x\<lparr> n_title := n_title EXCLUDED,
        n_prompt := n_prompt EXCLUDED,
        n_node_type := n_node_type EXCLUDED,
        n_tool_id := n_tool_id EXCLUDED,
        n_position_x := n_position_x EXCLUDED,
        n_position_y := n_position_y EXCLUDED,
        n_updated_at := now \<rparr>"

text \<open>
  One proposed row of \<^verbatim>\<open>INSERT ... ON CONFLICT (id) DO UPDATE\<close>. \<open>affected\<close> holds
  the ids the command has inserted or updated so far: meeting one of them again is an
  error. A stored row of the same id is updated in place (its project and creation time
  stay); otherwise the row is inserted. The foreign keys are checked on the row written.
\<close>

definition upsert_node ::
  "nat \<Rightarrow> db \<Rightarrow> node_row \<Rightarrow> string list \<Rightarrow> node_row list \<Rightarrow> store_error + node_row list" where
  "upsert_node now d r affected tbl =
     (if n_id r \<in> set affected then Inl CardinalityViolation
      else if list_ex (\<lambda>x. n_id x = n_id r) tbl
      then (if tool_exists d (n_tool_id r)
            then Inr (map (\<lambda>x. if n_id x = n_id r then do_update_set now r x else x) tbl)
            else Inl (ForeignKeyViolation ''nodes_tool_id_fkey''))
      else (if \<not> project_exists d (n_project_id r)
            then Inl (ForeignKeyViolation ''nodes_project_id_fkey'')
            else if tool_exists d (n_tool_id r)
            then Inr (tbl @ [r])
            else Inl (ForeignKeyViolation ''nodes_tool_id_fkey'')))"

fun insert_nodes ::
  "nat \<Rightarrow> db \<Rightarrow> json_node list \<Rightarrow> string list \<Rightarrow> node_row list \<Rightarrow> store_error + node_row list" where
  "insert_nodes now d [] affected tbl = Inr tbl"
| "insert_nodes now d (j # js) affected tbl =
     (case node_of_json now j of
        Inl e \<Rightarrow> Inl e
      | Inr r \<Rightarrow>
          (case upsert_node now d r affected tbl of
             Inl e \<Rightarrow> Inl e
           | Inr tbl' \<Rightarrow> insert_nodes now d js (n_id r # affected) tbl'))"

definition edge_of_json :: "nat \<Rightarrow> json_edge \<Rightarrow> store_error + edge_row" where
  "edge_of_json now j =
     (case je_id j of None \<Rightarrow> Inl (NotNullViolation ''id'') | Some i \<Rightarrow>
      case je_project_id j of None \<Rightarrow> Inl (NotNullViolation ''project_id'') | Some p \<Rightarrow>
      case je_source_id j of None \<Rightarrow> Inl (NotNullViolation ''source_id'') | Some s \<Rightarrow>
      case je_target_id j of None \<Rightarrow> Inl (NotNullViolation ''target_id'') | Some t \<Rightarrow>
        Inr \<lparr> e_id = i, e_project_id = p, e_source_id = s, e_target_id = t,
              e_label = je_label j, e_prompt = je_prompt j,
              e_created_at = now, e_updated_at = now \<rparr>)"

fun insert_edges :: "nat \<Rightarrow> db \<Rightarrow> json_edge list \<Rightarrow> edge_row list \<Rightarrow> store_error + edge_row list" where
  "insert_edges now d [] tbl = Inr tbl"
| "insert_edges now d (j # js) tbl =
     (case edge_of_json now j of
        Inl e \<Rightarrow> Inl e
      | Inr r \<Rightarrow>
          (if list_ex (\<lambda>x. e_id x = e_id r) tbl then Inl (UniqueViolation ''edges_pkey'')
           else if \<not> project_exists d (e_project_id r)
           then Inl (ForeignKeyViolation ''edges_project_id_fkey'')
           else insert_edges now d js (tbl @ [r])))"

subsection \<open>The stored procedure \<^verbatim>\<open>save_flow\<close>\<close>

text \<open>
  The body of the function, statement by statement, on a working copy of the store. It
  returns the exception that ended it, if any, with the working copy at that point.
\<close>

definition save_flow_body ::
  "nat \<Rightarrow> string \<Rightarrow> json_node list \<Rightarrow> json_edge list \<Rightarrow> db \<Rightarrow> store_error option \<times> db" where
  "save_flow_body now p_project_id p_nodes p_edges d =
     (let has_start_node = list_ex (\<lambda>v. jn_node_type v = Some ''start'') p_nodes in
      if \<not> has_start_node then (Some StartNodeRequired, d)
      else
        (case delete_nodes_where
                (\<lambda>r. n_project_id r = p_project_id \<and> n_node_type r \<noteq> ''start'') (nodes d) of
           Inl e \<Rightarrow> (Some e, d)
         | Inr kept \<Rightarrow>
            (let d1 = d\<lparr> nodes := kept \<rparr>;
                 d2 = d1\<lparr> edges := filter (\<lambda>e. e_project_id e \<noteq> p_project_id) (edges d1) \<rparr>
             in case insert_nodes now d2 p_nodes [] (nodes d2) of
                  Inl e \<Rightarrow> (Some e, d2)
                | Inr tbl \<Rightarrow>
                   (let d3 = d2\<lparr> nodes := tbl \<rparr>
                    in case insert_edges now d3 p_edges (edges d3) of
                         Inl e \<Rightarrow> (Some e, d3)
                       | Inr etbl \<Rightarrow>
                          (let d4 = d3\<lparr> edges := etbl \<rparr>
                           in (None,
                               d4\<lparr> projects :=
                                     map (\<lambda>p. if p_id p = p_project_id
                                               then p\<lparr> p_updated_at := now \<rparr> else p)
                                         (projects d4) \<rparr>))))))"

text \<open>
  The call of the function (\<^verbatim>\<open>supabase.rpc('save_flow', ...)\<close>). A PL/pgSQL function
  runs inside the transaction of the statement that calls it: an exception that leaves
  the function aborts the statement, and the store keeps none of the changes the body
  made. Without an exception the working copy is committed.
\<close>

definition save_flow ::
  "nat \<Rightarrow> string \<Rightarrow> json_node list \<Rightarrow> json_edge list \<Rightarrow> db \<Rightarrow> store_error option \<times> db" where
  "save_flow now p_project_id p_nodes p_edges d =
     (case save_flow_body now p_project_id p_nodes p_edges d of
        (Some e, working) \<Rightarrow> (Some e, d)
      | (None, working) \<Rightarrow> (None, working))"

section \<open>The service functions (flowService.js, projectService.js)\<close>

text \<open>
  The store client answers from the tables: a query for \<^verbatim>\<open>.single()\<close> fails unless
  exactly one row comes back, a delete that matches no row is no error. What a function
  writes with \<^verbatim>\<open>console.error\<close> is returned as a list of entries (label, text).
\<close>

type_synonym console = "(string \<times> string) list"

text \<open>
  Modelled from the spec: \<^verbatim>\<open>handleSupabaseError\<close> of the module
  \<^verbatim>\<open>./supabase\<close>, which is not among the sources. The spec has store-adapter
  failures surface as a tagged result to the caller, and every caller reads
  \<^verbatim>\<open>const { data, error } = await ...\<close>: the helper returns \<^verbatim>\<open>{ error }\<close>
  and does not throw.
\<close>

definition handleSupabaseError :: "string \<Rightarrow> 'a svc_result" where
  "handleSupabaseError e = Failure e"

definition with_tool :: "db \<Rightarrow> node_row \<Rightarrow> fetched_node" where
  "with_tool d r =
     \<lparr> n_id = n_id r, n_project_id = n_project_id r, n_title = n_title r, n_prompt = n_prompt r,
       n_node_type = n_node_type r, n_tool_id = n_tool_id r, n_position_x = n_position_x r,
       n_position_y = n_position_y r, n_created_at = n_created_at r, n_updated_at = n_updated_at r,
       f_tool = (case n_tool_id r of None \<Rightarrow> None
                 | Some t \<Rightarrow> find (\<lambda>x. t_id x = t) (tools d)) \<rparr>"

definition fetchNodesByProject :: "db \<Rightarrow> string \<Rightarrow> fetched_node list svc_result" where
  "fetchNodesByProject d projectId =
     Data (map (with_tool d) (filter (\<lambda>r. n_project_id r = projectId) (nodes d)))"

definition fetchEdgesByProject :: "db \<Rightarrow> string \<Rightarrow> edge_row list svc_result" where
  "fetchEdgesByProject d projectId = Data (filter (\<lambda>e. e_project_id e = projectId) (edges d))"

text \<open>Truthiness of a property that may be absent: absent and the empty string are falsy.\<close>

definition truthy :: "string option \<Rightarrow> bool" where
  "truthy s = (case s of None \<Rightarrow> False | Some v \<Rightarrow> v \<noteq> [])"

text \<open>
  \<^verbatim>\<open>isStartNode\<close>: the query for the one row of that id; any error is logged and
  answered with \<^verbatim>\<open>false\<close>.
\<close>

definition isStartNode :: "db \<Rightarrow> string \<Rightarrow> bool \<times> console" where
  "isStartNode d nodeId =
     (case filter (\<lambda>r. n_id r = nodeId) (nodes d) of
        [r] \<Rightarrow> (n_node_type r = ''start'', [])
      | _ \<Rightarrow> (False, [(''Error checking node type:'', message NoSingleRow)]))"

text \<open>
  The \<^verbatim>\<open>updates\<close> object of \<^verbatim>\<open>updateNode\<close>: \<open>None\<close> is an absent key; the two
  nullable columns can also be set to \<^verbatim>\<open>null\<close> (\<open>Some None\<close>).
\<close>

record node_updates =
  u_title :: "string option"
  u_prompt :: "string option option"
  u_node_type :: "string option"
  u_tool_id :: "string option option"
  u_position_x :: "real option"
  u_position_y :: "real option"

definition apply_updates :: "node_updates \<Rightarrow> node_row \<Rightarrow> node_row" where
  "apply_updates u r =
     r\<lparr> n_title := (case u_title u of None \<Rightarrow> n_title r | Some v \<Rightarrow> v),
        n_prompt := (case u_prompt u of None \<Rightarrow> n_prompt r | Some v \<Rightarrow> v),
        n_node_type := (case u_node_type u of None \<Rightarrow> n_node_type r | Some v \<Rightarrow> v),
        n_tool_id := (case u_tool_id u of None \<Rightarrow> n_tool_id r | Some v \<Rightarrow> v),
        n_position_x := (case u_position_x u of None \<Rightarrow> n_position_x r | Some v \<Rightarrow> v),
        n_position_y := (case u_position_y u of None \<Rightarrow> n_position_y r | Some v \<Rightarrow> v) \<rparr>"

text \<open>
  \<^verbatim>\<open>updateNode\<close>. \<^verbatim>\<open>updates.node_type && await isStartNode(nodeId)\<close> calls
  \<^verbatim>\<open>isStartNode\<close> only for a truthy \<^verbatim>\<open>node_type\<close>; then the key is deleted. The
  update is written to the row of that id and \<^verbatim>\<open>.single()\<close> returns it.
\<close>

definition updateNode :: "db \<Rightarrow> string \<Rightarrow> node_updates \<Rightarrow> node_row svc_result \<times> db \<times> console" where
  "updateNode d nodeId updates =
     (let guard = (if truthy (u_node_type updates) then isStartNode d nodeId else (False, []));
          updates' = (if fst guard then updates\<lparr> u_node_type := None \<rparr> else updates)
      in case filter (\<lambda>r. n_id r = nodeId) (nodes d) of
           [r] \<Rightarrow>
             (if u_tool_id updates' = None \<or> tool_exists d (n_tool_id (apply_updates updates' r))
              then (Data (apply_updates updates' r),
                    d\<lparr> nodes := map (\<lambda>x. if n_id x = nodeId then apply_updates updates' x else x)
                                     (nodes d) \<rparr>,
                    snd guard)
              else (handleSupabaseError (message (ForeignKeyViolation ''nodes_tool_id_fkey'')),
                    d, snd guard))
         | _ \<Rightarrow> (handleSupabaseError (message NoSingleRow), d, snd guard))"

definition deleteNode :: "db \<Rightarrow> string \<Rightarrow> unit svc_result \<times> db \<times> console" where
  "deleteNode d nodeId =
     (let check = isStartNode d nodeId
      in if fst check then (Failure ''Cannot delete start node'', d, snd check)
         else (case delete_nodes_where (\<lambda>r. n_id r = nodeId) (nodes d) of
                 Inl e \<Rightarrow> (handleSupabaseError (message e), d, snd check)
               | Inr tbl \<Rightarrow> (Success, d\<lparr> nodes := tbl \<rparr>, snd check)))"

definition deleteEdge :: "db \<Rightarrow> string \<Rightarrow> unit svc_result \<times> db" where
  "deleteEdge d edgeId = (Success, d\<lparr> edges := filter (\<lambda>e. e_id e \<noteq> edgeId) (edges d) \<rparr>)"

text \<open>
  \<^verbatim>\<open>saveFlow\<close>: the result, the store afterwards, and the number of calls of the
  stored procedure it made.
\<close>

definition saveFlow ::
  "nat \<Rightarrow> string \<Rightarrow> json_node list \<Rightarrow> json_edge list \<Rightarrow> db \<Rightarrow> unit svc_result \<times> db \<times> nat" where
  "saveFlow now projectId nodes' edges' d =
     (let hasStartNode = list_ex (\<lambda>node. jn_node_type node = Some ''start'') nodes'
      in if \<not> hasStartNode then (Failure ''Flow must include a start node'', d, 0)
         else (case save_flow now projectId nodes' edges' d of
                 (Some transactionError, d') \<Rightarrow> (handleSupabaseError (message transactionError), d', 1)
               | (None, d') \<Rightarrow> (Success, d', 1)))"

text \<open>\<^verbatim>\<open>updateProject(projectId, { updated_at })\<close> of projectService.js.\<close>

definition updateProject :: "db \<Rightarrow> string \<Rightarrow> nat \<Rightarrow> project_row svc_result \<times> db" where
  "updateProject d projectId updated_at =
     (case filter (\<lambda>p. p_id p = projectId) (projects d) of
        [p] \<Rightarrow> (Data (p\<lparr> p_updated_at := updated_at \<rparr>),
                d\<lparr> projects := map (\<lambda>x. if p_id x = projectId
                                         then x\<lparr> p_updated_at := updated_at \<rparr> else x)
                                    (projects d) \<rparr>)
      | _ \<Rightarrow> (handleSupabaseError (message NoSingleRow), d))"

section \<open>Saving from the canvas (\<^verbatim>\<open>handleSave\<close> of Flow)\<close>

record ui_state =
  ui_nodes :: "flow_node list"
  ui_edges :: "flow_edge list"
  hasUnsavedChanges :: bool
  ui_error :: "string option"
  console_log :: console

definition formattedNode :: "string \<Rightarrow> flow_node \<Rightarrow> json_node" where
  "formattedNode projectId node =
     \<lparr> jn_id = Some (fn_id node),
       jn_project_id = Some projectId,
       jn_title = Some (d_title (fn_data node)),
       jn_prompt = d_prompt (fn_data node),
       jn_node_type = Some (js_or (d_node_type (fn_data node)) ''default''),
       jn_tool_id = js_or_null (d_tool_id (fn_data node)),
       jn_position_x = Some (fst (fn_position node)),
       jn_position_y = Some (snd (fn_position node)) \<rparr>"

text \<open>\<^verbatim>\<open>edge.data?.label || ''\<close>\<close>

definition label_or_empty :: "edge_data option \<Rightarrow> (edge_data \<Rightarrow> string option) \<Rightarrow> string" where
  "label_or_empty dat field =
     (case dat of None \<Rightarrow> []
      | Some v \<Rightarrow> (case field v of None \<Rightarrow> [] | Some l \<Rightarrow> l))"

definition formattedEdge :: "string \<Rightarrow> flow_edge \<Rightarrow> json_edge" where
  "formattedEdge projectId edge =
     \<lparr> je_id = Some (fe_id edge),
       je_project_id = Some projectId,
       je_source_id = Some (fe_source edge),
       je_target_id = Some (fe_target edge),
       je_label = Some (label_or_empty (fe_data edge) ed_label),
       je_prompt = Some (label_or_empty (fe_data edge) ed_prompt) \<rparr>"

text \<open>The \<^verbatim>\<open>error\<close> property of a result (\<^verbatim>\<open>const { error } = await saveFlow(...)\<close>).\<close>

definition error_of :: "'a svc_result \<Rightarrow> string option" where
  "error_of r = (case r of Failure e \<Rightarrow> Some e | Data x \<Rightarrow> None | Success \<Rightarrow> None)"

text \<open>
  \<^verbatim>\<open>handleSave\<close>. The function has no \<^verbatim>\<open>return\<close> with a value: the first component,
  what its promise resolves to, is \<open>None\<close> (\<^verbatim>\<open>undefined\<close>) on every path. A truthy
  \<^verbatim>\<open>error\<close> is thrown and caught by the function's own \<^verbatim>\<open>catch\<close>, which writes to
  the console. \<open>now\<close> is the store's clock, \<open>today\<close> the client's.
\<close>

definition handleSave ::
  "nat \<Rightarrow> nat \<Rightarrow> string \<Rightarrow> db \<Rightarrow> ui_state \<Rightarrow> unit svc_result option \<times> db \<times> ui_state \<times> nat" where
  "handleSave now today projectId d ui =
     (if projectId = [] then (None, d, ui, 0)
      else
        (case saveFlow now projectId (map (formattedNode projectId) (ui_nodes ui))
                (map (formattedEdge projectId) (ui_edges ui)) d of
           (res, d', calls) \<Rightarrow>
             (let saved = (None, snd (updateProject d' projectId today),
                           ui\<lparr> hasUnsavedChanges := False \<rparr>, calls)
              in case error_of res of
                   None \<Rightarrow> saved
                 | Some err \<Rightarrow>
                     if err = [] then saved
                     else (None, d',
                           ui\<lparr> console_log := console_log ui @
                                 [(''Error saving flow:'', ''Error: '' @ err)] \<rparr>,
                           calls))))"

section \<open>Properties of the stored graph\<close>

text \<open>The start nodes a project has in the store.\<close>

definition start_nodes_of :: "db \<Rightarrow> string \<Rightarrow> node_row list" where
  "start_nodes_of d pid =
     filter (\<lambda>r. n_project_id r = pid \<and> n_node_type r = ''start'') (nodes d)"

text \<open>
  The project has exactly one node of kind start, and the id of that node is
  \<^verbatim>\<open>start_<projectId>\<close>.
\<close>

definition one_start_node :: "db \<Rightarrow> string \<Rightarrow> bool" where
  "one_start_node d pid = (map n_id (start_nodes_of d pid) = [''start_'' @ pid])"

text \<open>
  The two declared constraints of the table \<^verbatim>\<open>nodes\<close> that the properties below rest
  on: the primary key (no two rows share an id) and the foreign key to the projects.
\<close>

definition nodes_constraints :: "db \<Rightarrow> bool" where
  "nodes_constraints d =
     (distinct (map n_id (nodes d)) \<and> list_all (\<lambda>r. project_exists d (n_project_id r)) (nodes d))"

subsection \<open>Sample events and canvas states\<close>

definition weather_tool :: tool_row where
  "weather_tool = \<lparr> t_id = ''t1'', t_name = ''weather'', t_endpoint = ''https://w.example/api'',
                     t_method = ''GET'', t_headers = None, t_body = None \<rparr>"

definition row_n1 :: node_row where
  "row_n1 = \<lparr> n_id = ''n1'', n_project_id = ''P'', n_title = ''Ask city'',
               n_prompt = Some ''Which city?'', n_node_type = ''tool'', n_tool_id = Some ''t1'',
               n_position_x = 120, n_position_y = 80, n_created_at = 1, n_updated_at = 2 \<rparr>"

definition fetched_n1 :: fetched_node where
  "fetched_n1 = \<lparr> n_id = ''n1'', n_project_id = ''P'', n_title = ''Ask city'',
                   n_prompt = Some ''Which city?'', n_node_type = ''tool'', n_tool_id = Some ''t1'',
                   n_position_x = 120, n_position_y = 80, n_created_at = 1, n_updated_at = 2,
                   f_tool = Some weather_tool \<rparr>"

definition canvas_start :: flow_node where
  "canvas_start = \<lparr> fn_id = ''start_P'', fn_type = ''customNode'', fn_position = (50, 50),
                     fn_deletable = False,
                     fn_data = \<lparr> d_title = ''Start'', d_prompt = None, d_node_type = ''start'',
                                 d_tool_id = None, d_tool = ToolNull \<rparr> \<rparr>"

definition canvas_n1_old :: flow_node where
  "canvas_n1_old = \<lparr> fn_id = ''n1'', fn_type = ''customNode'', fn_position = (0, 0),
                      fn_deletable = True,
                      fn_data = \<lparr> d_title = ''New Node'', d_prompt = Some ''Enter your prompt here'',
                                  d_node_type = ''default'', d_tool_id = None,
                                  d_tool = ToolUndefined \<rparr> \<rparr>"

definition canvas_n1_new :: flow_node where
  "canvas_n1_new = \<lparr> fn_id = ''n1'', fn_type = ''customNode'', fn_position = (120, 80),
                      fn_deletable = True,
                      fn_data = \<lparr> d_title = ''Ask city'', d_prompt = Some ''Which city?'',
                                  d_node_type = ''tool'', d_tool_id = Some ''t1'',
                                  d_tool = ToolObj weather_tool \<rparr> \<rparr>"

definition canvas_n1_untooled :: flow_node where
  "canvas_n1_untooled = \<lparr> fn_id = ''n1'', fn_type = ''customNode'', fn_position = (120, 80),
                           fn_deletable = True,
                           fn_data = \<lparr> d_title = ''Ask city'', d_prompt = Some ''Which city?'',
                                       d_node_type = ''tool'', d_tool_id = Some ''t1'',
                                       d_tool = ToolUndefined \<rparr> \<rparr>"

definition row_e1 :: edge_row where
  "row_e1 = \<lparr> e_id = ''e1'', e_project_id = ''P'', e_source_id = ''start_P'', e_target_id = ''n1'',
               e_label = Some ''go'', e_prompt = None, e_created_at = 1, e_updated_at = 1 \<rparr>"

definition canvas_e1 :: flow_edge where
  "canvas_e1 = \<lparr> fe_id = ''e1'', fe_source = ''start_P'', fe_target = ''n1'',
                  fe_type = ''customEdge'',
                  fe_data = Some \<lparr> ed_label = Some ''go'', ed_prompt = None \<rparr> \<rparr>"

definition node_event :: "string \<Rightarrow> node_payload" where
  "node_event ty = \<lparr> np_eventType = ty, np_new = row_n1, np_old_id = ''n1'' \<rparr>"

definition edge_event :: "string \<Rightarrow> edge_payload" where
  "edge_event ty = \<lparr> ep_eventType = ty, ep_new = row_e1, ep_old_id = ''e1'' \<rparr>"

subsection \<open>Sample stores and inputs\<close>

definition proj_P :: project_row where
  "proj_P = \<lparr> p_id = ''P'', p_name = ''Demo'', p_description = None,
               p_created_at = 1, p_updated_at = 1 \<rparr>"

definition db_empty :: db where
  "db_empty = \<lparr> projects = [], tools = [weather_tool], nodes = [], edges = [] \<rparr>"

definition start_P :: node_row where
  "start_P = \<lparr> n_id = ''start_P'', n_project_id = ''P'', n_title = ''Start'',
                n_prompt = Some ''This is the starting point of your flow'',
                n_node_type = ''start'', n_tool_id = None, n_position_x = 50, n_position_y = 50,
                n_created_at = 1, n_updated_at = 1 \<rparr>"

definition db_P :: db where
  "db_P = \<lparr> projects = [proj_P], tools = [weather_tool], nodes = [start_P], edges = [] \<rparr>"

definition db_P1 :: db where
  "db_P1 = \<lparr> projects = [proj_P], tools = [weather_tool], nodes = [start_P, row_n1],
              edges = [row_e1] \<rparr>"

definition j_start :: json_node where
  "j_start = \<lparr> jn_id = Some ''start_P'', jn_project_id = Some ''P'', jn_title = Some ''Start'',
                jn_prompt = Some ''Greet the caller'', jn_node_type = Some ''start'',
                jn_tool_id = None, jn_position_x = Some 50, jn_position_y = Some 50 \<rparr>"

definition j_n1 :: json_node where
  "j_n1 = \<lparr> jn_id = Some ''n1'', jn_project_id = Some ''P'', jn_title = Some ''Ask city'',
             jn_prompt = Some ''Which city?'', jn_node_type = Some ''default'',
             jn_tool_id = None, jn_position_x = Some 120, jn_position_y = Some 80 \<rparr>"

definition j_n2_start :: json_node where
  "j_n2_start = \<lparr> jn_id = Some ''n2'', jn_project_id = Some ''P'', jn_title = Some ''Second'',
                   jn_prompt = None, jn_node_type = Some ''start'',
                   jn_tool_id = None, jn_position_x = Some 10, jn_position_y = Some 10 \<rparr>"

definition j_untitled :: json_node where
  "j_untitled = \<lparr> jn_id = Some ''n3'', jn_project_id = Some ''P'', jn_title = None,
                   jn_prompt = None, jn_node_type = Some ''default'',
                   jn_tool_id = None, jn_position_x = Some 0, jn_position_y = Some 0 \<rparr>"

definition j_start_retyped :: json_node where
  "j_start_retyped = \<lparr> jn_id = Some ''start_P'', jn_project_id = Some ''P'',
                        jn_title = Some ''Start'', jn_prompt = None,
                        jn_node_type = Some ''default'', jn_tool_id = None,
                        jn_position_x = Some 50, jn_position_y = Some 50 \<rparr>"

definition ui_tooled :: ui_state where
  "ui_tooled = \<lparr> ui_nodes = [canvas_start, canvas_n1_new], ui_edges = [canvas_e1],
                  hasUnsavedChanges = True, ui_error = None, console_log = [] \<rparr>"

definition db_no_tools :: db where
  "db_no_tools = \<lparr> projects = [proj_P], tools = [], nodes = [start_P], edges = [] \<rparr>"

definition ui_dirty :: ui_state where
  "ui_dirty = \<lparr> ui_nodes = [canvas_n1_old], ui_edges = [], hasUnsavedChanges = True,
                 ui_error = None, console_log = [] \<rparr>"

section \<open>Reconciliation: what an event does to the canvas state\<close>

lemma setNodes_merge_length_present:
  "list_ex (\<lambda>node. fn_id node = fn_id u) prev \<Longrightarrow> length (setNodes_merge u prev) = length prev"
  by (simp add: setNodes_merge_def)

lemma setNodes_merge_nth_present:
  "list_ex (\<lambda>node. fn_id node = fn_id u) prev \<Longrightarrow> i < length prev \<Longrightarrow>
   setNodes_merge u prev ! i = (if fn_id (prev ! i) = fn_id u then u else prev ! i)"
  by (simp add: setNodes_merge_def)

lemma setNodes_merge_absent:
  "\<not> list_ex (\<lambda>node. fn_id node = fn_id u) prev \<Longrightarrow> setNodes_merge u prev = prev @ [u]"
  by (simp add: setNodes_merge_def)

lemma setEdges_merge_length_present:
  "list_ex (\<lambda>edge. fe_id edge = fe_id u) prev \<Longrightarrow> length (setEdges_merge u prev) = length prev"
  by (simp add: setEdges_merge_def)

lemma setEdges_merge_nth_present:
  "list_ex (\<lambda>edge. fe_id edge = fe_id u) prev \<Longrightarrow> i < length prev \<Longrightarrow>
   setEdges_merge u prev ! i = (if fe_id (prev ! i) = fe_id u then u else prev ! i)"
  by (simp add: setEdges_merge_def)

lemma setEdges_merge_absent:
  "\<not> list_ex (\<lambda>edge. fe_id edge = fe_id u) prev \<Longrightarrow> setEdges_merge u prev = prev @ [u]"
  by (simp add: setEdges_merge_def)

lemma filter_absent_id:
  "\<not> list_ex (\<lambda>x. key x = k) xs \<Longrightarrow> filter (\<lambda>x. key x \<noteq> k) xs = xs"
  by (induction xs) auto

lemma setNodes_merge_idem: "setNodes_merge u (setNodes_merge u prev) = setNodes_merge u prev"
proof (cases "list_ex (\<lambda>node. fn_id node = fn_id u) prev")
  case True
  then have "list_ex (\<lambda>node. fn_id node = fn_id u)
               (map (\<lambda>node. if fn_id node = fn_id u then u else node) prev)"
    by (auto simp: list_ex_iff)
  with True show ?thesis
    by (simp add: setNodes_merge_def)
next
  case False
  then have "map (\<lambda>node. if fn_id node = fn_id u then u else node) prev = prev"
    by (induction prev) auto
  with False show ?thesis
    by (simp add: setNodes_merge_def)
qed

lemma setEdges_merge_idem: "setEdges_merge u (setEdges_merge u prev) = setEdges_merge u prev"
proof (cases "list_ex (\<lambda>edge. fe_id edge = fe_id u) prev")
  case True
  then have "list_ex (\<lambda>edge. fe_id edge = fe_id u)
               (map (\<lambda>edge. if fe_id edge = fe_id u then u else edge) prev)"
    by (auto simp: list_ex_iff)
  with True show ?thesis
    by (simp add: setEdges_merge_def)
next
  case False
  then have "map (\<lambda>edge. if fe_id edge = fe_id u then u else edge) prev = prev"
    by (induction prev) auto
  with False show ?thesis
    by (simp add: setEdges_merge_def)
qed


lemma on_node_change_upsert:
  assumes "np_eventType p = ''INSERT'' \<or> np_eventType p = ''UPDATE''"
  shows "on_node_change p res prev = setNodes_merge (updatedNode res (np_new p)) prev"
  using assms by (auto simp: on_node_change_def)

lemma on_node_change_delete:
  assumes "np_eventType p = ''DELETE''"
  shows "on_node_change p res prev = filter (\<lambda>node. fn_id node \<noteq> np_old_id p) prev"
  using assms by (simp add: on_node_change_def)

lemma on_edge_change_upsert:
  assumes "ep_eventType q = ''INSERT'' \<or> ep_eventType q = ''UPDATE''"
  shows "on_edge_change q prev = setEdges_merge (updatedEdge (ep_new q)) prev"
  using assms by (auto simp: on_edge_change_def)

lemma on_edge_change_delete:
  assumes "ep_eventType q = ''DELETE''"
  shows "on_edge_change q prev = filter (\<lambda>edge. fe_id edge \<noteq> ep_old_id q) prev"
  using assms by (simp add: on_edge_change_def)

lemma node_upsert_rule:
  assumes ev: "np_eventType p = ''INSERT'' \<or> np_eventType p = ''UPDATE''"
  shows "(list_ex (\<lambda>node. fn_id node = n_id (np_new p)) prev \<longrightarrow>
            length (on_node_change p res prev) = length prev \<and>
            (\<forall>i<length prev. on_node_change p res prev ! i =
               (if fn_id (prev ! i) = n_id (np_new p) then updatedNode res (np_new p) else prev ! i)))
       \<and> (\<not> list_ex (\<lambda>node. fn_id node = n_id (np_new p)) prev \<longrightarrow>
            on_node_change p res prev = prev @ [updatedNode res (np_new p)])"
proof -
  let ?u = "updatedNode res (np_new p)"
  have id: "fn_id ?u = n_id (np_new p)"
    by (simp add: updatedNode_def)
  have out: "on_node_change p res prev = setNodes_merge ?u prev"
    by (rule on_node_change_upsert [OF ev])
  show ?thesis
    unfolding out
    using setNodes_merge_length_present [of ?u prev] setNodes_merge_nth_present [of ?u prev]
      setNodes_merge_absent [of ?u prev]
    by (simp add: id)
qed

lemma edge_upsert_rule:
  assumes ev: "ep_eventType q = ''INSERT'' \<or> ep_eventType q = ''UPDATE''"
  shows "(list_ex (\<lambda>edge. fe_id edge = e_id (ep_new q)) prev \<longrightarrow>
            length (on_edge_change q prev) = length prev \<and>
            (\<forall>i<length prev. on_edge_change q prev ! i =
               (if fe_id (prev ! i) = e_id (ep_new q) then updatedEdge (ep_new q) else prev ! i)))
       \<and> (\<not> list_ex (\<lambda>edge. fe_id edge = e_id (ep_new q)) prev \<longrightarrow>
            on_edge_change q prev = prev @ [updatedEdge (ep_new q)])"
proof -
  let ?u = "updatedEdge (ep_new q)"
  have id: "fe_id ?u = e_id (ep_new q)"
    by (simp add: updatedEdge_def)
  have out: "on_edge_change q prev = setEdges_merge ?u prev"
    by (rule on_edge_change_upsert [OF ev])
  show ?thesis
    unfolding out
    using setEdges_merge_length_present [of ?u prev] setEdges_merge_nth_present [of ?u prev]
      setEdges_merge_absent [of ?u prev]
    by (simp add: id)
qed

lemma node_delete_rule:
  assumes ev: "np_eventType p = ''DELETE''"
  shows "on_node_change p res prev = filter (\<lambda>node. fn_id node \<noteq> np_old_id p) prev \<and>
         (\<not> list_ex (\<lambda>node. fn_id node = np_old_id p) prev \<longrightarrow> on_node_change p res prev = prev)"
  using on_node_change_delete [OF ev] filter_absent_id [of fn_id "np_old_id p" prev] by simp

lemma edge_delete_rule:
  assumes ev: "ep_eventType q = ''DELETE''"
  shows "on_edge_change q prev = filter (\<lambda>edge. fe_id edge \<noteq> ep_old_id q) prev \<and>
         (\<not> list_ex (\<lambda>edge. fe_id edge = ep_old_id q) prev \<longrightarrow> on_edge_change q prev = prev)"
  using on_edge_change_delete [OF ev] filter_absent_id [of fe_id "ep_old_id q" prev] by simp

text \<open>
  C1. An Insert or Update event for a node replaces every canvas node of that id by the
  node built from the payload (identifier, position, title, prompt, kind, tool reference
  from the pushed row; the inlined tool from the supplemental fetch) and leaves all other
  nodes and the length of the list as they are; when no canvas node has the id, the new
  node is appended. A Delete event keeps exactly the nodes of another id, which is the
  state itself when the id is absent. Edge events follow the same rule.
\<close>

theorem reconciliation_rule:
  "((np_eventType p = ''INSERT'' \<or> np_eventType p = ''UPDATE'') \<longrightarrow>
      fn_id (updatedNode res (np_new p)) = n_id (np_new p) \<and>
      fn_position (updatedNode res (np_new p)) = (n_position_x (np_new p), n_position_y (np_new p)) \<and>
      fn_deletable (updatedNode res (np_new p)) = (n_node_type (np_new p) \<noteq> ''start'') \<and>
      d_title (fn_data (updatedNode res (np_new p))) = n_title (np_new p) \<and>
      d_prompt (fn_data (updatedNode res (np_new p))) = n_prompt (np_new p) \<and>
      d_node_type (fn_data (updatedNode res (np_new p))) = js_or (n_node_type (np_new p)) ''default'' \<and>
      d_tool_id (fn_data (updatedNode res (np_new p))) = js_or_null (n_tool_id (np_new p)) \<and>
      d_tool (fn_data (updatedNode res (np_new p))) = resolved_tool (fullNode res (np_new p)) \<and>
      (list_ex (\<lambda>node. fn_id node = n_id (np_new p)) prevNodes \<longrightarrow>
         length (on_node_change p res prevNodes) = length prevNodes \<and>
         (\<forall>i<length prevNodes. on_node_change p res prevNodes ! i =
            (if fn_id (prevNodes ! i) = n_id (np_new p)
             then updatedNode res (np_new p) else prevNodes ! i))) \<and>
      (\<not> list_ex (\<lambda>node. fn_id node = n_id (np_new p)) prevNodes \<longrightarrow>
         on_node_change p res prevNodes = prevNodes @ [updatedNode res (np_new p)]))
   \<and> (np_eventType p = ''DELETE'' \<longrightarrow>
      on_node_change p res prevNodes = filter (\<lambda>node. fn_id node \<noteq> np_old_id p) prevNodes \<and>
      (\<not> list_ex (\<lambda>node. fn_id node = np_old_id p) prevNodes \<longrightarrow>
         on_node_change p res prevNodes = prevNodes))
   \<and> ((ep_eventType q = ''INSERT'' \<or> ep_eventType q = ''UPDATE'') \<longrightarrow>
      fe_id (updatedEdge (ep_new q)) = e_id (ep_new q) \<and>
      fe_source (updatedEdge (ep_new q)) = e_source_id (ep_new q) \<and>
      fe_target (updatedEdge (ep_new q)) = e_target_id (ep_new q) \<and>
      fe_data (updatedEdge (ep_new q)) =
        Some \<lparr> ed_label = e_label (ep_new q), ed_prompt = e_prompt (ep_new q) \<rparr> \<and>
      (list_ex (\<lambda>edge. fe_id edge = e_id (ep_new q)) prevEdges \<longrightarrow>
         length (on_edge_change q prevEdges) = length prevEdges \<and>
         (\<forall>i<length prevEdges. on_edge_change q prevEdges ! i =
            (if fe_id (prevEdges ! i) = e_id (ep_new q)
             then updatedEdge (ep_new q) else prevEdges ! i))) \<and>
      (\<not> list_ex (\<lambda>edge. fe_id edge = e_id (ep_new q)) prevEdges \<longrightarrow>
         on_edge_change q prevEdges = prevEdges @ [updatedEdge (ep_new q)]))
   \<and> (ep_eventType q = ''DELETE'' \<longrightarrow>
      on_edge_change q prevEdges = filter (\<lambda>edge. fe_id edge \<noteq> ep_old_id q) prevEdges \<and>
      (\<not> list_ex (\<lambda>edge. fe_id edge = ep_old_id q) prevEdges \<longrightarrow>
         on_edge_change q prevEdges = prevEdges))"
proof (intro conjI impI)
  assume ev: "np_eventType p = ''INSERT'' \<or> np_eventType p = ''UPDATE''"
  note r = node_upsert_rule [OF ev, of prevNodes res]
  {
    assume "list_ex (\<lambda>node. fn_id node = n_id (np_new p)) prevNodes"
    with r show "length (on_node_change p res prevNodes) = length prevNodes"
      by blast
  }
  {
    assume "list_ex (\<lambda>node. fn_id node = n_id (np_new p)) prevNodes"
    with r show "\<forall>i<length prevNodes. on_node_change p res prevNodes ! i =
            (if fn_id (prevNodes ! i) = n_id (np_new p)
             then updatedNode res (np_new p) else prevNodes ! i)"
      by blast
  }
  {
    assume "\<not> list_ex (\<lambda>node. fn_id node = n_id (np_new p)) prevNodes"
    with r show "on_node_change p res prevNodes = prevNodes @ [updatedNode res (np_new p)]"
      by blast
  }
next
  assume ev: "np_eventType p = ''DELETE''"
  note r = node_delete_rule [OF ev, of res prevNodes]
  from r show "on_node_change p res prevNodes = filter (\<lambda>node. fn_id node \<noteq> np_old_id p) prevNodes"
    by blast
  {
    assume "\<not> list_ex (\<lambda>node. fn_id node = np_old_id p) prevNodes"
    with r show "on_node_change p res prevNodes = prevNodes"
      by blast
  }
next
  assume ev: "ep_eventType q = ''INSERT'' \<or> ep_eventType q = ''UPDATE''"
  note r = edge_upsert_rule [OF ev, of prevEdges]
  {
    assume "list_ex (\<lambda>edge. fe_id edge = e_id (ep_new q)) prevEdges"
    with r show "length (on_edge_change q prevEdges) = length prevEdges"
      by blast
  }
  {
    assume "list_ex (\<lambda>edge. fe_id edge = e_id (ep_new q)) prevEdges"
    with r show "\<forall>i<length prevEdges. on_edge_change q prevEdges ! i =
            (if fe_id (prevEdges ! i) = e_id (ep_new q)
             then updatedEdge (ep_new q) else prevEdges ! i)"
      by blast
  }
  {
    assume "\<not> list_ex (\<lambda>edge. fe_id edge = e_id (ep_new q)) prevEdges"
    with r show "on_edge_change q prevEdges = prevEdges @ [updatedEdge (ep_new q)]"
      by blast
  }
next
  assume ev: "ep_eventType q = ''DELETE''"
  note r = edge_delete_rule [OF ev, of prevEdges]
  from r show "on_edge_change q prevEdges = filter (\<lambda>edge. fe_id edge \<noteq> ep_old_id q) prevEdges"
    by blast
  {
    assume "\<not> list_ex (\<lambda>edge. fe_id edge = ep_old_id q) prevEdges"
    with r show "on_edge_change q prevEdges = prevEdges"
      by blast
  }
qed (simp_all add: updatedNode_def updatedEdge_def)



theorem reconciliation_rule_witness:
  "np_eventType (node_event ''UPDATE'') = ''UPDATE'' \<and>
   list_ex (\<lambda>node. fn_id node = n_id (np_new (node_event ''UPDATE''))) [canvas_start, canvas_n1_old] \<and>
   length (on_node_change (node_event ''UPDATE'') (Data [fetched_n1]) [canvas_start, canvas_n1_old]) = 2 \<and>
   on_node_change (node_event ''UPDATE'') (Data [fetched_n1]) [canvas_start, canvas_n1_old] ! 0
     = canvas_start \<and>
   on_node_change (node_event ''UPDATE'') (Data [fetched_n1]) [canvas_start, canvas_n1_old] ! 1
     = canvas_n1_new \<and>
   ep_eventType (edge_event ''INSERT'') = ''INSERT'' \<and>
   \<not> list_ex (\<lambda>edge. fe_id edge = e_id (ep_new (edge_event ''INSERT''))) [] \<and>
   on_edge_change (edge_event ''INSERT'') [] = [canvas_e1]"
  using reconciliation_rule [where p = "node_event ''UPDATE''" and res = "Data [fetched_n1]"
      and prevNodes = "[canvas_start, canvas_n1_old]" and q = "edge_event ''INSERT''"
      and prevEdges = "[]"]
  by (simp add: node_event_def row_n1_def fetched_n1_def weather_tool_def canvas_start_def
      canvas_n1_old_def canvas_n1_new_def edge_event_def row_e1_def canvas_e1_def updatedNode_def updatedEdge_def fullNode_def resolved_tool_def
      js_or_def js_or_null_def)

text \<open>
  C9. Applying the same change event a second time changes nothing: for the two updaters
  (the merge of \<^verbatim>\<open>setNodes\<close> and of \<^verbatim>\<open>setEdges\<close> with the same entity) and for
  the two handlers with the same event (for the node handler, the supplemental fetch
  resolving to the same result). This holds for Insert and Update, and for every other
  event type as well.
\<close>

theorem change_event_idempotent:
  "setNodes_merge u (setNodes_merge u prevNodes) = setNodes_merge u prevNodes \<and>
   setEdges_merge v (setEdges_merge v prevEdges) = setEdges_merge v prevEdges \<and>
   on_node_change p res (on_node_change p res prevNodes) = on_node_change p res prevNodes \<and>
   on_edge_change q (on_edge_change q prevEdges) = on_edge_change q prevEdges"
  by (simp add: setNodes_merge_idem setEdges_merge_idem on_node_change_def on_edge_change_def)

theorem change_event_idempotent_witness:
  "on_node_change (node_event ''INSERT'') (Data [fetched_n1]) [canvas_start] =
     [canvas_start, canvas_n1_new] \<and>
   on_node_change (node_event ''INSERT'') (Data [fetched_n1]) [canvas_start, canvas_n1_new] =
     [canvas_start, canvas_n1_new] \<and>
   on_edge_change (edge_event ''UPDATE'') [canvas_e1] = [canvas_e1] \<and>
   on_edge_change (edge_event ''UPDATE'') (on_edge_change (edge_event ''UPDATE'') [canvas_e1]) =
     [canvas_e1]"
  using change_event_idempotent [where p = "node_event ''INSERT''" and res = "Data [fetched_n1]"
      and prevNodes = "[canvas_start]" and q = "edge_event ''UPDATE''" and prevEdges = "[canvas_e1]"]
  by (simp add: node_event_def row_n1_def fetched_n1_def weather_tool_def canvas_start_def
      canvas_n1_new_def edge_event_def row_e1_def canvas_e1_def on_node_change_def on_edge_change_def setNodes_merge_def
      setEdges_merge_def updatedNode_def updatedEdge_def fullNode_def resolved_tool_def
      js_or_def js_or_null_def)

text \<open>
  C8, as stated, fails: an Insert event whose supplemental fetch failed still changes
  the canvas state. The pushed node is appended, with its inlined tool undefined.
\<close>

theorem failed_fetch_changes_state:
  "np_eventType (node_event ''INSERT'') = ''INSERT'' \<and>
   on_node_change (node_event ''INSERT'') (handleSupabaseError ''fetch failed'') [canvas_start]
     = [canvas_start, canvas_n1_untooled] \<and>
   on_node_change (node_event ''INSERT'') (handleSupabaseError ''fetch failed'') [canvas_start]
     \<noteq> [canvas_start]"
  by (simp add: node_event_def row_n1_def canvas_start_def canvas_n1_untooled_def on_node_change_def setNodes_merge_def updatedNode_def fullNode_def
      resolved_tool_def js_or_def js_or_null_def handleSupabaseError_def)

text \<open>
  C8, amended. The handler is a total function of the event, the fetch result and the
  state: no path of it throws. When the supplemental fetch of an Insert or Update event
  fails, the handler behaves as for a fetch that found no row for the node: the node built
  from the pushed row, with the inlined tool undefined, overwrites the canvas nodes of
  that id, or is appended when there is none.
\<close>

theorem failed_fetch_applies_payload:
  assumes "np_eventType p = ''INSERT'' \<or> np_eventType p = ''UPDATE''"
  shows "d_tool (fn_data (updatedNode (handleSupabaseError e) (np_new p))) = ToolUndefined \<and>
         updatedNode (handleSupabaseError e) (np_new p) = updatedNode (Data []) (np_new p) \<and>
         on_node_change p (handleSupabaseError e) prevNodes = on_node_change p (Data []) prevNodes \<and>
         (list_ex (\<lambda>node. fn_id node = n_id (np_new p)) prevNodes \<longrightarrow>
            length (on_node_change p (handleSupabaseError e) prevNodes) = length prevNodes \<and>
            (\<forall>i<length prevNodes. on_node_change p (handleSupabaseError e) prevNodes ! i =
               (if fn_id (prevNodes ! i) = n_id (np_new p)
                then updatedNode (handleSupabaseError e) (np_new p) else prevNodes ! i))) \<and>
         (\<not> list_ex (\<lambda>node. fn_id node = n_id (np_new p)) prevNodes \<longrightarrow>
            on_node_change p (handleSupabaseError e) prevNodes =
              prevNodes @ [updatedNode (handleSupabaseError e) (np_new p)])"
proof -
  have same: "updatedNode (handleSupabaseError e) (np_new p) = updatedNode (Data []) (np_new p)"
    by (simp add: updatedNode_def fullNode_def handleSupabaseError_def)
  have tool: "d_tool (fn_data (updatedNode (handleSupabaseError e) (np_new p))) = ToolUndefined"
    by (simp add: updatedNode_def fullNode_def resolved_tool_def handleSupabaseError_def)
  have out: "on_node_change p (handleSupabaseError e) prevNodes = on_node_change p (Data []) prevNodes"
    by (simp add: on_node_change_def same)
  from same tool out node_upsert_rule [OF assms, of prevNodes "handleSupabaseError e"]
  show ?thesis
    by blast
qed

theorem failed_fetch_applies_payload_witness:
  "(np_eventType (node_event ''UPDATE'') = ''INSERT'' \<or>
    np_eventType (node_event ''UPDATE'') = ''UPDATE'') \<and>
   list_ex (\<lambda>node. fn_id node = n_id (np_new (node_event ''UPDATE''))) [canvas_n1_new] \<and>
   on_node_change (node_event ''UPDATE'') (handleSupabaseError ''fetch failed'') [canvas_n1_new] ! 0
     = canvas_n1_untooled"
  using failed_fetch_applies_payload [where p = "node_event ''UPDATE''" and e = "''fetch failed''"
      and prevNodes = "[canvas_n1_new]"]
  by (simp add: node_event_def row_n1_def weather_tool_def canvas_n1_new_def
      canvas_n1_untooled_def on_node_change_def setNodes_merge_def updatedNode_def fullNode_def
      resolved_tool_def js_or_def js_or_null_def handleSupabaseError_def)



section \<open>The stored procedure and the service functions\<close>

lemma message_nonempty: "message e \<noteq> []"
  by (cases e) simp_all

lemma delete_nodes_where_no_start:
  "\<not> list_ex (\<lambda>r. cond r \<and> n_node_type r = ''start'') tbl \<Longrightarrow>
   delete_nodes_where cond tbl = Inr (filter (\<lambda>r. \<not> cond r) tbl)"
  by (induction tbl) (auto simp: prevent_start_node_deletion_def)

lemma delete_phase_nodes:
  "delete_nodes_where (\<lambda>r. n_project_id r = pid \<and> n_node_type r \<noteq> ''start'') tbl =
   Inr (filter (\<lambda>r. \<not> (n_project_id r = pid \<and> n_node_type r \<noteq> ''start'')) tbl)"
  by (rule delete_nodes_where_no_start) (simp add: list_ex_iff)

lemma save_flow_failure_keeps_store:
  "fst (save_flow now pid ns es d) = Some e \<Longrightarrow> snd (save_flow now pid ns es d) = d"
  by (simp add: save_flow_def split: prod.splits option.splits)

lemma saveFlow_store:
  "fst (snd (saveFlow now pid ns es d)) =
     (if list_ex (\<lambda>node. jn_node_type node = Some ''start'') ns
      then snd (save_flow now pid ns es d) else d)"
  by (simp add: saveFlow_def split: prod.splits option.splits)

lemma saveFlow_failure:
  assumes "fst (saveFlow now pid ns es d) = Failure e"
  shows "e \<noteq> [] \<and> fst (snd (saveFlow now pid ns es d)) = d \<and> snd (snd (saveFlow now pid ns es d)) \<le> 1"
proof (cases "list_ex (\<lambda>node. jn_node_type node = Some ''start'') ns")
  case False
  with assms show ?thesis
    by (auto simp: saveFlow_def)
next
  case True
  obtain r w where sf: "save_flow now pid ns es d = (r, w)"
    by (cases "save_flow now pid ns es d")
  with True assms obtain err where r: "r = Some err" and e: "e = message err"
    by (cases r) (auto simp: saveFlow_def handleSupabaseError_def)
  from sf r have "w = d"
    using save_flow_failure_keeps_store [of now pid ns es d err] by simp
  with True sf r e show ?thesis
    by (simp add: saveFlow_def handleSupabaseError_def message_nonempty)
qed

text \<open>
  C2. When the call of \<^verbatim>\<open>save_flow\<close> ends with an error, whatever the statement that
  raised it, the store is the one before the call: the next fetch of any project's nodes
  and edges returns what it returned before, also through \<^verbatim>\<open>saveFlow\<close>.
\<close>

theorem save_flow_atomic:
  assumes "fst (save_flow now pid ns es d) = Some e"
  shows "snd (save_flow now pid ns es d) = d \<and>
         fetchNodesByProject (snd (save_flow now pid ns es d)) q = fetchNodesByProject d q \<and>
         fetchEdgesByProject (snd (save_flow now pid ns es d)) q = fetchEdgesByProject d q \<and>
         fst (snd (saveFlow now pid ns es d)) = d"
proof -
  have same: "snd (save_flow now pid ns es d) = d"
    by (rule save_flow_failure_keeps_store [OF assms])
  then show ?thesis
    by (simp add: saveFlow_store)
qed

text \<open>
  At this input the insert of the nodes fails after the delete phase: the working copy
  of the body has lost the node \<open>n1\<close> and the edge \<open>e1\<close>, the store has not.
\<close>

theorem save_flow_atomic_witness:
  "save_flow_body 5 ''P'' [j_start, j_untitled] [] db_P1 =
     (Some (NotNullViolation ''title''), db_P1\<lparr> nodes := [start_P], edges := [] \<rparr>) \<and>
   fst (save_flow 5 ''P'' [j_start, j_untitled] [] db_P1) = Some (NotNullViolation ''title'') \<and>
   snd (save_flow 5 ''P'' [j_start, j_untitled] [] db_P1) = db_P1 \<and>
   fetchNodesByProject (snd (save_flow 5 ''P'' [j_start, j_untitled] [] db_P1)) ''P'' =
     Data [with_tool db_P1 start_P, with_tool db_P1 row_n1] \<and>
   fetchEdgesByProject (snd (save_flow 5 ''P'' [j_start, j_untitled] [] db_P1)) ''P'' = Data [row_e1]"
proof -
  have body: "save_flow_body 5 ''P'' [j_start, j_untitled] [] db_P1 =
     (Some (NotNullViolation ''title''), db_P1\<lparr> nodes := [start_P], edges := [] \<rparr>)"
    by (simp add: save_flow_body_def j_start_def j_untitled_def db_P1_def start_P_def row_n1_def row_e1_def
        proj_P_def weather_tool_def prevent_start_node_deletion_def
        node_of_json_def upsert_node_def tool_exists_def project_exists_def do_update_set_def)
  have failed: "fst (save_flow 5 ''P'' [j_start, j_untitled] [] db_P1) = Some (NotNullViolation ''title'')"
    by (simp add: save_flow_def body)
  have fetched: "fetchNodesByProject db_P1 ''P'' = Data [with_tool db_P1 start_P, with_tool db_P1 row_n1] \<and>
                 fetchEdgesByProject db_P1 ''P'' = Data [row_e1]"
    by (simp add: fetchNodesByProject_def fetchEdgesByProject_def db_P1_def start_P_def
        row_n1_def row_e1_def)
  from save_flow_atomic [OF failed, of "''P''"] body failed fetched show ?thesis
    by simp
qed

text \<open>
  C6. A node set without a node of kind start: \<^verbatim>\<open>saveFlow\<close> answers with the error
  'Flow must include a start node', calls the stored procedure zero times and leaves the
  store as it is; the stored procedure, called directly, raises the same error before
  its first statement that writes, and the store is unchanged.
\<close>

theorem save_without_start_rejected:
  assumes "\<not> list_ex (\<lambda>node. jn_node_type node = Some ''start'') ns"
  shows "saveFlow now pid ns es d = (Failure ''Flow must include a start node'', d, 0) \<and>
         save_flow_body now pid ns es d = (Some StartNodeRequired, d) \<and>
         save_flow now pid ns es d = (Some StartNodeRequired, d) \<and>
         message StartNodeRequired = ''Flow must include a start node''"
  using assms by (simp add: saveFlow_def save_flow_def save_flow_body_def)

theorem save_without_start_rejected_witness:
  "\<not> list_ex (\<lambda>node. jn_node_type node = Some ''start'') [j_n1] \<and>
   saveFlow 5 ''P'' [j_n1] [] db_P1 = (Failure ''Flow must include a start node'', db_P1, 0) \<and>
   save_flow 5 ''P'' [j_n1] [] db_P1 = (Some StartNodeRequired, db_P1)"
  using save_without_start_rejected [of "[j_n1]" 5 "''P''" "[]" db_P1]
  by (simp add: j_n1_def)

lemma isStartNode_absent:
  "\<not> list_ex (\<lambda>r. n_id r = nodeId) (nodes d) \<Longrightarrow> fst (isStartNode d nodeId) = False"
proof -
  assume "\<not> list_ex (\<lambda>r. n_id r = nodeId) (nodes d)"
  then have "filter (\<lambda>r. n_id r = nodeId) (nodes d) = []"
    by (simp add: list_ex_iff filter_empty_conv)
  then show ?thesis
    by (simp add: isStartNode_def)
qed

lemma deleteNode_absent:
  assumes "\<not> list_ex (\<lambda>r. n_id r = nodeId) (nodes d)"
  shows "fst (deleteNode d nodeId) = Success \<and> fst (snd (deleteNode d nodeId)) = d"
proof -
  have none: "\<not> list_ex (\<lambda>r. n_id r = nodeId \<and> n_node_type r = ''start'') (nodes d)"
    using assms by (auto simp: list_ex_iff)
  have keep: "filter (\<lambda>r. n_id r \<noteq> nodeId) (nodes d) = nodes d"
    using assms by (auto simp: list_ex_iff filter_id_conv)
  have del: "delete_nodes_where (\<lambda>r. n_id r = nodeId) (nodes d) = Inr (nodes d)"
    using delete_nodes_where_no_start [OF none] keep by simp
  show ?thesis
    using isStartNode_absent [OF assms] by (simp add: deleteNode_def Let_def del)
qed

lemma deleteNode_present:
  assumes one: "filter (\<lambda>r. n_id r = nodeId) (nodes d) = [r]" and kind: "n_node_type r \<noteq> ''start''"
  shows "fst (deleteNode d nodeId) = Success"
proof -
  have "\<And>x. x \<in> set (nodes d) \<Longrightarrow> n_id x = nodeId \<Longrightarrow> x = r"
  proof -
    fix x assume "x \<in> set (nodes d)" "n_id x = nodeId"
    then have "x \<in> set (filter (\<lambda>r. n_id r = nodeId) (nodes d))"
      by simp
    then show "x = r"
      by (simp add: one)
  qed
  with kind have none: "\<not> list_ex (\<lambda>r. n_id r = nodeId \<and> n_node_type r = ''start'') (nodes d)"
    by (auto simp: list_ex_iff)
  show ?thesis
    using delete_nodes_where_no_start [OF none] kind
    by (simp add: deleteNode_def isStartNode_def Let_def one)
qed

lemma deleteEdge_absent:
  assumes "\<not> list_ex (\<lambda>e. e_id e = edgeId) (edges d)"
  shows "deleteEdge d edgeId = (Success, d)"
proof -
  have "filter (\<lambda>e. e_id e \<noteq> edgeId) (edges d) = edges d"
    using assms by (auto simp: list_ex_iff filter_id_conv)
  then show ?thesis
    by (simp add: deleteEdge_def)
qed

text \<open>
  C10. Deleting a node or an edge whose id is not in the store answers
  \<^verbatim>\<open>{ success: true }\<close> and leaves the store as it is. That is also the answer for an
  id that is there (any edge; a node that is not a start node), so the result does not
  tell the two apart.
\<close>

theorem delete_absent_succeeds:
  "(\<not> list_ex (\<lambda>r. n_id r = nodeId) (nodes d) \<longrightarrow>
      fst (deleteNode d nodeId) = Success \<and> fst (snd (deleteNode d nodeId)) = d) \<and>
   (\<not> list_ex (\<lambda>e. e_id e = edgeId) (edges d) \<longrightarrow> deleteEdge d edgeId = (Success, d)) \<and>
   (filter (\<lambda>r. n_id r = nodeId) (nodes d) = [r] \<and> n_node_type r \<noteq> ''start'' \<longrightarrow>
      fst (deleteNode d nodeId) = Success) \<and>
   fst (deleteEdge d edgeId) = Success"
  using deleteNode_absent [of nodeId d] deleteEdge_absent [of edgeId d]
    deleteNode_present [of nodeId d r]
  by (simp add: deleteEdge_def)

theorem delete_absent_succeeds_witness:
  "\<not> list_ex (\<lambda>r. n_id r = ''n9'') (nodes db_P1) \<and>
   fst (deleteNode db_P1 ''n9'') = Success \<and> fst (snd (deleteNode db_P1 ''n9'')) = db_P1 \<and>
   \<not> list_ex (\<lambda>e. e_id e = ''e9'') (edges db_P1) \<and>
   deleteEdge db_P1 ''e9'' = (Success, db_P1) \<and>
   filter (\<lambda>r. n_id r = ''n1'') (nodes db_P1) = [row_n1] \<and> n_node_type row_n1 \<noteq> ''start'' \<and>
   fst (deleteNode db_P1 ''n1'') = Success"
  using delete_absent_succeeds [of "''n9''" db_P1 "''e9''"]
    delete_absent_succeeds [of "''n1''" db_P1 "''e9''" row_n1]
  by (simp add: db_P1_def start_P_def row_n1_def row_e1_def)



section \<open>The start node of a project\<close>

lemma map_filter_update_same:
  assumes "\<And>x. x \<in> set T \<Longrightarrow> n_id (f x) = n_id x \<and> P (f x) = P x"
  shows "map n_id (filter P (map f T)) = map n_id (filter P T)"
  using assms by (induction T) auto

lemma node_of_json_fields:
  "node_of_json now j = Inr r \<Longrightarrow> jn_id j = Some (n_id r) \<and> jn_node_type j = Some (n_node_type r)"
  by (auto simp: node_of_json_def split: option.splits)

lemma upsert_node_keeps_start:
  assumes up: "upsert_node now d r A T = Inr T'"
    and pk: "distinct (map n_id T)"
    and inv: "map n_id (filter (\<lambda>x. n_project_id x = pid \<and> n_node_type x = ''start'') T) = [S]"
    and mark: "(n_node_type r = ''start'') = (n_id r = S)"
  shows "distinct (map n_id T') \<and>
         map n_id (filter (\<lambda>x. n_project_id x = pid \<and> n_node_type x = ''start'') T') = [S]"
proof -
  let ?P = "\<lambda>x. n_project_id x = pid \<and> n_node_type x = ''start''"
  let ?f = "\<lambda>x. if n_id x = n_id r then do_update_set now r x else x"
  from inv obtain y where y: "filter ?P T = [y]" and yS: "n_id y = S"
    by (cases "filter ?P T") auto
  have "y \<in> set (filter ?P T)"
    by (simp add: y)
  then have yT: "y \<in> set T" and yP: "?P y"
    by simp_all
  have onlyS: "\<And>x. x \<in> set T \<Longrightarrow> ?P x \<Longrightarrow> n_id x = S"
  proof -
    fix x assume "x \<in> set T" "?P x"
    then have "x \<in> set (filter ?P T)" by simp
    with y yS show "n_id x = S" by simp
  qed
  have uniq: "\<And>x. x \<in> set T \<Longrightarrow> n_id x = S \<Longrightarrow> x = y"
    using pk yT yS by (auto simp: distinct_map dest: inj_onD)
  show ?thesis
  proof (cases "list_ex (\<lambda>x. n_id x = n_id r) T")
    case True
    with up have T': "T' = map ?f T"
      by (auto simp: upsert_node_def split: if_splits)
    have ids: "map n_id (map ?f T) = map n_id T"
      by (induction T) (auto simp: do_update_set_def)
    have keep: "\<And>x. x \<in> set T \<Longrightarrow> n_id (?f x) = n_id x \<and> ?P (?f x) = ?P x"
    proof -
      fix x assume xT: "x \<in> set T"
      show "n_id (?f x) = n_id x \<and> ?P (?f x) = ?P x"
      proof (cases "n_id x = n_id r")
        case False
        then show ?thesis by simp
      next
        case same: True
        show ?thesis
        proof (cases "n_id r = S")
          case True
          with same xT have "x = y" using uniq by simp
          with yP mark True same show ?thesis
            by (simp add: do_update_set_def)
        next
          case False
          with same onlyS [OF xT] have "\<not> ?P x" by auto
          with mark False same show ?thesis
            by (simp add: do_update_set_def)
        qed
      qed
    qed
    have d': "distinct (map n_id T')"
      unfolding T' by (simp only: ids pk)
    have "map n_id (filter ?P (map ?f T)) = map n_id (filter ?P T)"
      by (rule map_filter_update_same [of T ?f ?P, OF keep])
    then have "map n_id (filter ?P T') = [S]"
      unfolding T' by (simp only: inv)
    with d' show ?thesis
      by blast
  next
    case False
    with up have T': "T' = T @ [r]"
      by (auto simp: upsert_node_def split: if_splits)
    have "\<not> ?P r"
    proof
      assume "?P r"
      with mark have "n_id r = S" by simp
      with yT yS False show False
        by (auto simp: list_ex_iff)
    qed
    with T' inv pk False show ?thesis
      by (auto simp: list_ex_iff)
  qed
qed

lemma insert_nodes_keeps_start:
  assumes "insert_nodes now d js A T = Inr T'"
    and "distinct (map n_id T)"
    and "map n_id (filter (\<lambda>x. n_project_id x = pid \<and> n_node_type x = ''start'') T) = [S]"
    and "list_all (\<lambda>j. (jn_node_type j = Some ''start'') = (jn_id j = Some S)) js"
  shows "distinct (map n_id T') \<and>
         map n_id (filter (\<lambda>x. n_project_id x = pid \<and> n_node_type x = ''start'') T') = [S]"
  using assms
proof (induction js arbitrary: A T)
  case Nil
  then show ?case by simp
next
  case (Cons j js)
  from Cons.prems(1) obtain r where r: "node_of_json now j = Inr r"
    by (cases "node_of_json now j") auto
  with Cons.prems(1) obtain T1 where T1: "upsert_node now d r A T = Inr T1"
    by (cases "upsert_node now d r A T") auto
  from Cons.prems(1) r T1 have rest: "insert_nodes now d js (n_id r # A) T1 = Inr T'"
    by simp
  from node_of_json_fields [OF r] Cons.prems(4)
  have mark: "(n_node_type r = ''start'') = (n_id r = S)"
    by simp
  from upsert_node_keeps_start [OF T1 Cons.prems(2) Cons.prems(3) mark]
  have step: "distinct (map n_id T1) \<and>
      map n_id (filter (\<lambda>x. n_project_id x = pid \<and> n_node_type x = ''start'') T1) = [S]" .
  from Cons.prems(4) have "list_all (\<lambda>j. (jn_node_type j = Some ''start'') = (jn_id j = Some S)) js"
    by simp
  with Cons.IH [OF rest] step show ?case
    by blast
qed


lemma save_flow_success_nodes:
  assumes "fst (save_flow now pid ns es d) = None"
  shows "insert_nodes now
           (d\<lparr> nodes := filter (\<lambda>r. \<not> (n_project_id r = pid \<and> n_node_type r \<noteq> ''start'')) (nodes d),
               edges := filter (\<lambda>e. e_project_id e \<noteq> pid) (edges d) \<rparr>)
           ns []
           (filter (\<lambda>r. \<not> (n_project_id r = pid \<and> n_node_type r \<noteq> ''start'')) (nodes d))
         = Inr (nodes (snd (save_flow now pid ns es d)))"
  using assms
  by (auto simp: save_flow_def save_flow_body_def delete_phase_nodes Let_def
      split: if_splits sum.splits prod.splits option.splits)

lemma delete_phase_keeps_start_nodes:
  "filter (\<lambda>x. n_project_id x = q \<and> n_node_type x = ''start'')
     (filter (\<lambda>r. \<not> (n_project_id r = pid \<and> n_node_type r \<noteq> ''start'')) tbl) =
   filter (\<lambda>x. n_project_id x = q \<and> n_node_type x = ''start'') tbl"
  by (induction tbl) auto

lemma save_flow_keeps_one_start:
  assumes ok: "fst (save_flow now pid ns es d) = None"
    and pk: "distinct (map n_id (nodes d))"
    and inv: "one_start_node d pid"
    and mark: "list_all (\<lambda>j. (jn_node_type j = Some ''start'') = (jn_id j = Some (''start_'' @ pid))) ns"
  shows "distinct (map n_id (nodes (snd (save_flow now pid ns es d)))) \<and>
         one_start_node (snd (save_flow now pid ns es d)) pid"
proof -
  let ?kept = "filter (\<lambda>r. \<not> (n_project_id r = pid \<and> n_node_type r \<noteq> ''start'')) (nodes d)"
  let ?d2 = "d\<lparr> nodes := ?kept, edges := filter (\<lambda>e. e_project_id e \<noteq> pid) (edges d) \<rparr>"
  have ins: "insert_nodes now ?d2 ns [] ?kept = Inr (nodes (snd (save_flow now pid ns es d)))"
    by (rule save_flow_success_nodes [OF ok])
  have pk2: "distinct (map n_id ?kept)"
    using pk by (simp add: distinct_map_filter)
  have "map n_id (filter (\<lambda>x. n_project_id x = pid \<and> n_node_type x = ''start'') (nodes d))
          = [''start_'' @ pid]"
    using inv by (simp only: one_start_node_def start_nodes_of_def)
  then have inv2: "map n_id (filter (\<lambda>x. n_project_id x = pid \<and> n_node_type x = ''start'') ?kept)
                = [''start_'' @ pid]"
    by (simp only: delete_phase_keeps_start_nodes)
  from insert_nodes_keeps_start [OF ins pk2 inv2 mark] show ?thesis
    by (simp add: one_start_node_def start_nodes_of_def)
qed

lemma insert_project_start:
  assumes ok: "fst (insert_project now NEW d) = None"
    and wf: "nodes_constraints d"
  shows "filter (\<lambda>r. n_project_id r = p_id NEW) (nodes (snd (insert_project now NEW d)))
           = [start_node_row now NEW] \<and>
         one_start_node (snd (insert_project now NEW d)) (p_id NEW)"
proof -
  from ok have fresh: "\<not> list_ex (\<lambda>p. p_id p = p_id NEW) (projects d)"
    by (auto simp: insert_project_def split: if_splits)
  from ok fresh have tbl: "nodes (snd (insert_project now NEW d)) = nodes d @ [start_node_row now NEW]"
    by (auto simp: insert_project_def create_start_node_for_project_def split: if_splits)
  have none: "filter (\<lambda>r. n_project_id r = p_id NEW) (nodes d) = []"
    using wf fresh
    by (auto simp: nodes_constraints_def project_exists_def list_all_iff list_ex_iff filter_empty_conv)
  then have none_start:
    "filter (\<lambda>r. n_project_id r = p_id NEW \<and> n_node_type r = ''start'') (nodes d) = []"
    by (auto simp: filter_empty_conv)
  show ?thesis
    by (simp add: tbl none none_start one_start_node_def start_nodes_of_def start_node_row_def)
qed

text \<open>Both operations keep the constraints of the table \<^verbatim>\<open>nodes\<close>.\<close>

lemma upsert_node_constraints:
  assumes up: "upsert_node now d r A T = Inr T'"
    and pk: "distinct (map n_id T)"
    and fk: "list_all (\<lambda>x. project_exists d (n_project_id x)) T"
  shows "distinct (map n_id T') \<and> list_all (\<lambda>x. project_exists d (n_project_id x)) T'"
proof (cases "list_ex (\<lambda>x. n_id x = n_id r) T")
  case True
  let ?f = "\<lambda>x. if n_id x = n_id r then do_update_set now r x else x"
  from True up have T': "T' = map ?f T"
    by (auto simp: upsert_node_def split: if_splits)
  have ids: "map n_id (map ?f T) = map n_id T"
    by (induction T) (auto simp: do_update_set_def)
  have prj: "map n_project_id (map ?f T) = map n_project_id T"
    by (induction T) (auto simp: do_update_set_def)
  have d': "distinct (map n_id T')"
    unfolding T' by (simp only: ids pk)
  have "list_all (project_exists d) (map n_project_id T)"
    using fk by (simp add: list_all_iff)
  then have "list_all (project_exists d) (map n_project_id T')"
    unfolding T' by (simp only: prj)
  then have "list_all (\<lambda>x. project_exists d (n_project_id x)) T'"
    by (simp add: list_all_iff)
  with d' show ?thesis
    by blast
next
  case False
  with up have T': "T' = T @ [r]" and ex: "project_exists d (n_project_id r)"
    by (auto simp: upsert_node_def split: if_splits)
  from False pk fk ex show ?thesis
    by (auto simp: T' list_ex_iff list_all_iff)
qed

lemma insert_nodes_constraints:
  assumes "insert_nodes now d js A T = Inr T'"
    and "distinct (map n_id T)"
    and "list_all (\<lambda>x. project_exists d (n_project_id x)) T"
  shows "distinct (map n_id T') \<and> list_all (\<lambda>x. project_exists d (n_project_id x)) T'"
  using assms
proof (induction js arbitrary: A T)
  case Nil
  then show ?case by simp
next
  case (Cons j js)
  from Cons.prems(1) obtain r where r: "node_of_json now j = Inr r"
    by (cases "node_of_json now j") auto
  with Cons.prems(1) obtain T1 where T1: "upsert_node now d r A T = Inr T1"
    by (cases "upsert_node now d r A T") auto
  from Cons.prems(1) r T1 have rest: "insert_nodes now d js (n_id r # A) T1 = Inr T'"
    by simp
  from upsert_node_constraints [OF T1 Cons.prems(2) Cons.prems(3)] Cons.IH [OF rest]
  show ?case
    by blast
qed

lemma save_flow_success_projects:
  assumes "fst (save_flow now pid ns es d) = None"
  shows "map p_id (projects (snd (save_flow now pid ns es d))) = map p_id (projects d)"
  using assms
  by (auto simp: save_flow_def save_flow_body_def delete_phase_nodes Let_def
      split: if_splits sum.splits prod.splits option.splits)

lemma project_exists_cong:
  "map p_id (projects d') = map p_id (projects d) \<Longrightarrow> project_exists d' = project_exists d"
proof
  fix x
  assume same: "map p_id (projects d') = map p_id (projects d)"
  have "project_exists d' x = (x \<in> set (map p_id (projects d')))"
    by (auto simp: project_exists_def list_ex_iff)
  also have "\<dots> = (x \<in> set (map p_id (projects d)))"
    by (simp only: same)
  also have "\<dots> = project_exists d x"
    by (auto simp: project_exists_def list_ex_iff)
  finally show "project_exists d' x = project_exists d x" .
qed

lemma save_flow_keeps_constraints:
  assumes ok: "fst (save_flow now pid ns es d) = None" and wf: "nodes_constraints d"
  shows "nodes_constraints (snd (save_flow now pid ns es d))"
proof -
  let ?kept = "filter (\<lambda>r. \<not> (n_project_id r = pid \<and> n_node_type r \<noteq> ''start'')) (nodes d)"
  let ?d2 = "d\<lparr> nodes := ?kept, edges := filter (\<lambda>e. e_project_id e \<noteq> pid) (edges d) \<rparr>"
  have ins: "insert_nodes now ?d2 ns [] ?kept = Inr (nodes (snd (save_flow now pid ns es d)))"
    by (rule save_flow_success_nodes [OF ok])
  have ex2: "project_exists ?d2 = project_exists d"
    by (rule project_exists_cong) simp
  have pk2: "distinct (map n_id ?kept)"
    using wf by (simp add: nodes_constraints_def distinct_map_filter)
  have "list_all (\<lambda>x. project_exists d (n_project_id x)) ?kept"
    using wf by (simp add: nodes_constraints_def list_all_iff)
  then have fk2: "list_all (\<lambda>x. project_exists ?d2 (n_project_id x)) ?kept"
    by (simp only: ex2)
  from insert_nodes_constraints [OF ins pk2 fk2]
  have res: "distinct (map n_id (nodes (snd (save_flow now pid ns es d)))) \<and>
      list_all (\<lambda>x. project_exists d (n_project_id x)) (nodes (snd (save_flow now pid ns es d)))"
    by (simp only: ex2)
  have "project_exists (snd (save_flow now pid ns es d)) = project_exists d"
    by (rule project_exists_cong) (rule save_flow_success_projects [OF ok])
  with res show ?thesis
    by (simp add: nodes_constraints_def)
qed

lemma insert_project_keeps_constraints:
  assumes ok: "fst (insert_project now NEW d) = None" and wf: "nodes_constraints d"
  shows "nodes_constraints (snd (insert_project now NEW d))"
proof -
  from ok have fresh: "\<not> list_ex (\<lambda>p. p_id p = p_id NEW) (projects d)"
    by (auto simp: insert_project_def split: if_splits)
  from ok fresh have free: "\<not> list_ex (\<lambda>r. n_id r = ''start_'' @ p_id NEW) (nodes d)"
    by (auto simp: insert_project_def create_start_node_for_project_def split: if_splits)
  from ok fresh free have res: "snd (insert_project now NEW d) =
      d\<lparr> projects := projects d @ [NEW], nodes := nodes d @ [start_node_row now NEW] \<rparr>"
    by (simp add: insert_project_def create_start_node_for_project_def)
  show ?thesis
    using wf free
    by (auto simp: res nodes_constraints_def project_exists_def list_all_iff list_ex_iff
        start_node_row_def)
qed

text \<open>
  C3, amended. After the insert of a project into a store that satisfies the constraints
  of the table \<^verbatim>\<open>nodes\<close>, the project has exactly one node: the start node
  \<^verbatim>\<open>start_<projectId>\<close> at (50, 50). A successful \<^verbatim>\<open>save_flow\<close> keeps "exactly one
  start node, with id \<^verbatim>\<open>start_<projectId>\<close>" when that held before the call and the
  supplied nodes of kind start are exactly the supplied nodes with that id. The procedure
  itself only checks that some supplied node is of kind start. Both operations hand the
  constraints on, so the property carries over any sequence of such calls.
\<close>

theorem start_node_invariant:
  "(nodes_constraints d \<and> fst (insert_project now NEW d) = None \<longrightarrow>
      filter (\<lambda>r. n_project_id r = p_id NEW) (nodes (snd (insert_project now NEW d)))
        = [start_node_row now NEW] \<and>
      n_id (start_node_row now NEW) = ''start_'' @ p_id NEW \<and>
      n_node_type (start_node_row now NEW) = ''start'' \<and>
      n_position_x (start_node_row now NEW) = 50 \<and>
      n_position_y (start_node_row now NEW) = 50 \<and>
      one_start_node (snd (insert_project now NEW d)) (p_id NEW) \<and>
      nodes_constraints (snd (insert_project now NEW d)))
   \<and> (nodes_constraints d \<and> one_start_node d pid \<and>
       list_all (\<lambda>j. (jn_node_type j = Some ''start'') = (jn_id j = Some (''start_'' @ pid))) ns \<and>
       fst (save_flow now pid ns es d) = None \<longrightarrow>
      one_start_node (snd (save_flow now pid ns es d)) pid \<and>
      nodes_constraints (snd (save_flow now pid ns es d)))"
  using insert_project_start [of now NEW d] save_flow_keeps_one_start [of now pid ns es d]
    insert_project_keeps_constraints [of now NEW d] save_flow_keeps_constraints [of now pid ns es d]
  by (simp add: start_node_row_def nodes_constraints_def)

theorem start_node_invariant_witness:
  "nodes_constraints db_empty \<and> insert_project 1 proj_P db_empty = (None, db_P) \<and>
   filter (\<lambda>r. n_project_id r = ''P'') (nodes db_P) = [start_P] \<and>
   one_start_node db_P ''P'' \<and>
   nodes_constraints db_P \<and>
   list_all (\<lambda>j. (jn_node_type j = Some ''start'') = (jn_id j = Some (''start_'' @ ''P''))) [j_start, j_n1] \<and>
   fst (save_flow 5 ''P'' [j_start, j_n1] [] db_P) = None \<and>
   map n_id (nodes (snd (save_flow 5 ''P'' [j_start, j_n1] [] db_P))) = [''start_P'', ''n1''] \<and>
   one_start_node (snd (save_flow 5 ''P'' [j_start, j_n1] [] db_P)) ''P''"
proof -
  have created: "insert_project 1 proj_P db_empty = (None, db_P)"
    by (simp add: insert_project_def create_start_node_for_project_def start_node_row_def
        db_empty_def proj_P_def db_P_def start_P_def j_start_def j_n1_def
        weather_tool_def)
  have wf0: "nodes_constraints db_empty"
    by (simp add: nodes_constraints_def db_empty_def)
  have wf1: "nodes_constraints db_P"
    by (simp add: nodes_constraints_def project_exists_def db_empty_def proj_P_def db_P_def start_P_def j_start_def j_n1_def
        weather_tool_def)
  have mark: "list_all (\<lambda>j. (jn_node_type j = Some ''start'') = (jn_id j = Some (''start_'' @ ''P'')))
                [j_start, j_n1]"
    by (simp add: db_empty_def proj_P_def db_P_def start_P_def j_start_def j_n1_def
        weather_tool_def)
  have saved: "fst (save_flow 5 ''P'' [j_start, j_n1] [] db_P) = None \<and>
      map n_id (nodes (snd (save_flow 5 ''P'' [j_start, j_n1] [] db_P))) = [''start_P'', ''n1'']"
    by (simp add: save_flow_def save_flow_body_def db_empty_def proj_P_def db_P_def start_P_def j_start_def j_n1_def
        weather_tool_def prevent_start_node_deletion_def
        node_of_json_def upsert_node_def tool_exists_def project_exists_def do_update_set_def
        edge_of_json_def)
  from start_node_invariant [where d = db_empty and now = 1 and NEW = proj_P]
    start_node_invariant [where d = db_P and pid = "''P''" and ns = "[j_start, j_n1]" and now = 5
      and es = "[]"]
    created wf0 wf1 mark saved
  show ?thesis
    by (simp add: proj_P_def start_node_row_def start_P_def)
qed

text \<open>
  C3, as stated, fails for \<^verbatim>\<open>save_flow\<close>: a node set with two nodes of kind start
  passes the check and is stored, and the project then has two start nodes.
\<close>

theorem second_start_node_saved:
  "one_start_node db_P ''P'' \<and>
   fst (save_flow 5 ''P'' [j_start, j_n2_start] [] db_P) = None \<and>
   map n_id (start_nodes_of (snd (save_flow 5 ''P'' [j_start, j_n2_start] [] db_P)) ''P'')
     = [''start_P'', ''n2''] \<and>
   \<not> one_start_node (snd (save_flow 5 ''P'' [j_start, j_n2_start] [] db_P)) ''P''"
  by (simp add: one_start_node_def start_nodes_of_def save_flow_def save_flow_body_def db_P_def proj_P_def start_P_def weather_tool_def j_start_def j_n2_start_def
      prevent_start_node_deletion_def node_of_json_def upsert_node_def tool_exists_def
      project_exists_def do_update_set_def edge_of_json_def)


section \<open>The kind of the start node\<close>

text \<open>
  C4 at a failing input. The store holds project \<open>P\<close> with its start node. The supplied
  set gives \<^verbatim>\<open>start_P\<close> the kind \<^verbatim>\<open>default\<close> and holds another node of kind start, so
  the check passes; the \<^verbatim>\<open>DO UPDATE SET\<close> list writes \<^verbatim>\<open>node_type\<close>, and the save
  succeeds with the start node retyped.
\<close>

theorem save_flow_retypes_start_node:
  "filter (\<lambda>r. n_id r = ''start_P'') (nodes db_P) = [start_P] \<and>
   n_node_type start_P = ''start'' \<and>
   fst (saveFlow 5 ''P'' [j_start_retyped, j_n2_start] [] db_P) = Success \<and>
   map n_node_type
     (filter (\<lambda>r. n_id r = ''start_P'')
        (nodes (fst (snd (saveFlow 5 ''P'' [j_start_retyped, j_n2_start] [] db_P))))) = [''default''] \<and>
   map n_id (start_nodes_of (fst (snd (saveFlow 5 ''P'' [j_start_retyped, j_n2_start] [] db_P))) ''P'')
     = [''n2'']"
  by (simp add: saveFlow_def start_nodes_of_def save_flow_def save_flow_body_def db_P_def proj_P_def start_P_def weather_tool_def j_start_retyped_def
      j_n2_start_def
      prevent_start_node_deletion_def node_of_json_def upsert_node_def tool_exists_def
      project_exists_def do_update_set_def edge_of_json_def)

text \<open>
  The first half of C4 holds: the delete phase never raises and keeps every start node.
  The second half fails by the \<^verbatim>\<open>DO UPDATE SET\<close> list, which copies the supplied kind.
\<close>

lemma start_nodes_survive_delete_phase:
  assumes "r \<in> set tbl" and "n_node_type r = ''start''"
  shows "\<exists>kept. delete_nodes_where (\<lambda>r. n_project_id r = pid \<and> n_node_type r \<noteq> ''start'') tbl
                  = Inr kept \<and> r \<in> set kept"
  using assms by (simp add: delete_phase_nodes)

lemma do_update_set_node_type: "n_node_type (do_update_set now EXCLUDED x) = n_node_type EXCLUDED"
  by (simp add: do_update_set_def)

section \<open>A save that fails\<close>

text \<open>
  C5, as stated, fails: a save of a canvas without a start node fails in validation; the
  flag stays set, but \<^verbatim>\<open>handleSave\<close> resolves to \<^verbatim>\<open>undefined\<close>, not to the error,
  and the component's error state stays empty. The error only reaches the console.
\<close>

theorem handleSave_swallows_error:
  "hasUnsavedChanges ui_dirty \<and>
   fst (saveFlow 5 ''P'' (map (formattedNode ''P'') (ui_nodes ui_dirty))
          (map (formattedEdge ''P'') (ui_edges ui_dirty)) db_P)
     = Failure ''Flow must include a start node'' \<and>
   handleSave 5 6 ''P'' db_P ui_dirty =
     (None, db_P,
      ui_dirty\<lparr> console_log := [(''Error saving flow:'', ''Error: Flow must include a start node'')] \<rparr>,
      0) \<and>
   fst (handleSave 5 6 ''P'' db_P ui_dirty) \<noteq> Some (Failure ''Flow must include a start node'') \<and>
   ui_error (fst (snd (snd (handleSave 5 6 ''P'' db_P ui_dirty)))) = None"
  by (simp add: handleSave_def saveFlow_def formattedNode_def error_of_def js_or_def
      ui_dirty_def canvas_n1_old_def)

text \<open>
  C5, amended. When \<^verbatim>\<open>saveFlow\<close> answers with an error (from its own check or from
  the stored procedure), \<^verbatim>\<open>handleSave\<close> leaves \<^verbatim>\<open>hasUnsavedChanges\<close>, the canvas and
  the store as they were, has called the stored procedure at most once, resolves to
  \<^verbatim>\<open>undefined\<close>, and appends one console entry, 'Error saving flow:' with the error.
\<close>

theorem failed_save_is_logged:
  assumes pid: "projectId \<noteq> []"
    and failed: "fst (saveFlow now projectId (map (formattedNode projectId) (ui_nodes ui))
                   (map (formattedEdge projectId) (ui_edges ui)) d) = Failure e"
  shows "handleSave now today projectId d ui =
           (None, d,
            ui\<lparr> console_log := console_log ui @ [(''Error saving flow:'', ''Error: '' @ e)] \<rparr>,
            snd (snd (saveFlow now projectId (map (formattedNode projectId) (ui_nodes ui))
                   (map (formattedEdge projectId) (ui_edges ui)) d))) \<and>
         hasUnsavedChanges (fst (snd (snd (handleSave now today projectId d ui)))) = hasUnsavedChanges ui \<and>
         ui_error (fst (snd (snd (handleSave now today projectId d ui)))) = ui_error ui \<and>
         fst (handleSave now today projectId d ui) = None \<and>
         snd (snd (snd (handleSave now today projectId d ui))) \<le> 1"
proof -
  let ?sf = "saveFlow now projectId (map (formattedNode projectId) (ui_nodes ui))
               (map (formattedEdge projectId) (ui_edges ui)) d"
  obtain res d' calls where sf: "?sf = (res, d', calls)"
    by (cases ?sf)
  from saveFlow_failure [OF failed] sf failed
  have e: "e \<noteq> []" and d': "d' = d" and calls: "calls \<le> 1" and res: "res = Failure e"
    by simp_all
  have hs: "handleSave now today projectId d ui =
      (None, d, ui\<lparr> console_log := console_log ui @ [(''Error saving flow:'', ''Error: '' @ e)] \<rparr>, calls)"
    using pid e by (simp add: handleSave_def sf res d' error_of_def)
  show ?thesis
    using calls by (simp add: hs sf)
qed

text \<open>
  Two failing saves: a canvas without a start node (validation), and a canvas whose node
  \<open>n1\<close> references a tool the store does not hold (persistence, after the delete phase).
\<close>

theorem failed_save_is_logged_witness:
  "''P'' \<noteq> [] \<and>
   fst (saveFlow 5 ''P'' (map (formattedNode ''P'') (ui_nodes ui_dirty))
          (map (formattedEdge ''P'') (ui_edges ui_dirty)) db_P)
     = Failure ''Flow must include a start node'' \<and>
   handleSave 5 6 ''P'' db_P ui_dirty =
     (None, db_P,
      ui_dirty\<lparr> console_log := [(''Error saving flow:'', ''Error: Flow must include a start node'')] \<rparr>,
      0) \<and>
   fst (saveFlow 5 ''P'' (map (formattedNode ''P'') (ui_nodes ui_tooled))
          (map (formattedEdge ''P'') (ui_edges ui_tooled)) db_no_tools)
     = Failure (message (ForeignKeyViolation ''nodes_tool_id_fkey'')) \<and>
   handleSave 5 6 ''P'' db_no_tools ui_tooled =
     (None, db_no_tools,
      ui_tooled\<lparr> console_log :=
        [(''Error saving flow:'', ''Error: '' @ message (ForeignKeyViolation ''nodes_tool_id_fkey''))] \<rparr>,
      1)"
proof -
  have pid: "''P'' \<noteq> []"
    by simp
  have failed1: "fst (saveFlow 5 ''P'' (map (formattedNode ''P'') (ui_nodes ui_dirty))
          (map (formattedEdge ''P'') (ui_edges ui_dirty)) db_P)
     = Failure ''Flow must include a start node''"
    by (simp add: saveFlow_def formattedNode_def js_or_def ui_dirty_def canvas_n1_old_def)
  have calls1: "snd (snd (saveFlow 5 ''P'' (map (formattedNode ''P'') (ui_nodes ui_dirty))
          (map (formattedEdge ''P'') (ui_edges ui_dirty)) db_P)) = 0"
    by (simp add: saveFlow_def formattedNode_def js_or_def ui_dirty_def canvas_n1_old_def)
  have saved2: "saveFlow 5 ''P'' (map (formattedNode ''P'') (ui_nodes ui_tooled))
          (map (formattedEdge ''P'') (ui_edges ui_tooled)) db_no_tools
     = (Failure (message (ForeignKeyViolation ''nodes_tool_id_fkey'')), db_no_tools, 1)"
    by (simp add: saveFlow_def save_flow_def save_flow_body_def formattedNode_def
        formattedEdge_def js_or_def js_or_null_def ui_tooled_def db_no_tools_def canvas_start_def canvas_n1_new_def
        canvas_e1_def proj_P_def start_P_def weather_tool_def prevent_start_node_deletion_def
        node_of_json_def upsert_node_def tool_exists_def project_exists_def do_update_set_def
        handleSupabaseError_def)
  then have failed2: "fst (saveFlow 5 ''P'' (map (formattedNode ''P'') (ui_nodes ui_tooled))
          (map (formattedEdge ''P'') (ui_edges ui_tooled)) db_no_tools)
     = Failure (message (ForeignKeyViolation ''nodes_tool_id_fkey''))"
    by simp
  from failed_save_is_logged [OF pid failed1, of 6] failed_save_is_logged [OF pid failed2, of 6]
    failed1 failed2 calls1 saved2
  show ?thesis
    by (simp add: ui_dirty_def ui_tooled_def)
qed

section \<open>Updating the start node\<close>

text \<open>
  With a truthy \<^verbatim>\<open>node_type\<close> in the updates, \<^verbatim>\<open>updateNode\<close> on the start node drops
  the key: the kind stays \<^verbatim>\<open>start\<close> and the other keys are written.
\<close>

lemma updateNode_start_guard:
  assumes one: "filter (\<lambda>r. n_id r = nodeId) (nodes d) = [r]"
    and start: "n_node_type r = ''start''"
    and attempt: "truthy (u_node_type u)"
    and fk: "u_tool_id u = None \<or> tool_exists d (n_tool_id (apply_updates (u\<lparr> u_node_type := None \<rparr>) r))"
  shows "fst (updateNode d nodeId u) = Data (apply_updates (u\<lparr> u_node_type := None \<rparr>) r) \<and>
         n_node_type (apply_updates (u\<lparr> u_node_type := None \<rparr>) r) = ''start'' \<and>
         n_title (apply_updates (u\<lparr> u_node_type := None \<rparr>) r) =
           (case u_title u of None \<Rightarrow> n_title r | Some v \<Rightarrow> v)"
  using assms
  by (auto simp: updateNode_def isStartNode_def Let_def apply_updates_def)

text \<open>
  C7 at a failing input. The empty string is falsy, so \<^verbatim>\<open>updates.node_type && ...\<close> does
  not reach \<^verbatim>\<open>isStartNode\<close> and the key is not deleted: the start node's kind becomes
  the empty string (the column is \<open>TEXT NOT NULL\<close> with no check), together with the
  new title. With the kind \<^verbatim>\<open>tool\<close> the same call keeps the kind and writes the title.
\<close>

theorem updateNode_empty_type_retypes_start:
  "fst (isStartNode db_P ''start_P'') = True \<and>
   updateNode db_P ''start_P''
     \<lparr> u_title = Some ''Begin'', u_prompt = None, u_node_type = Some [], u_tool_id = None,
       u_position_x = None, u_position_y = None \<rparr> =
     (Data (start_P\<lparr> n_title := ''Begin'', n_node_type := [] \<rparr>),
      db_P\<lparr> nodes := [start_P\<lparr> n_title := ''Begin'', n_node_type := [] \<rparr>] \<rparr>, []) \<and>
   fst (updateNode db_P ''start_P''
     \<lparr> u_title = Some ''Begin'', u_prompt = None, u_node_type = Some ''tool'', u_tool_id = None,
       u_position_x = None, u_position_y = None \<rparr>) =
     Data (start_P\<lparr> n_title := ''Begin'' \<rparr>)"
  by (simp add: updateNode_def isStartNode_def truthy_def apply_updates_def db_P_def start_P_def)

end
